theory Spec2Isabelle
  imports Main
begin

section \<open>Configuration\<close>

text \<open>
  Both modules read their settings through \<^verbatim>\<open>p.Config\<close>. The configuration is
  modelled by the values its getters return for the keys the two modules read: a missing
  key is the zero value of its type (\<open>0\<close>, \<open>False\<close>, the empty string, the empty list,
  the empty map), as the getters of the configuration library return it.
\<close>

record app_config =
  AppName :: string
  AppDebug :: bool
  IsTestEnv :: bool

text \<open>The keys under \<^verbatim>\<open>modules.grpc.server\<close>.\<close>

record grpc_config = app_config +
  grpc_port :: int
  grpc_reflection_enabled :: bool
  grpc_healthcheck_enabled :: bool
  grpc_trace_enabled :: bool
  grpc_trace_exclude :: "string list"
  grpc_log_metadata :: "string \<rightharpoonup> string"
  grpc_log_exclude :: "string list"
  grpc_metrics_collect_enabled :: bool
  grpc_metrics_collect_namespace :: string
  grpc_metrics_collect_subsystem :: string
  grpc_metrics_buckets :: string
  grpc_test_bufconn_size :: int

text \<open>The keys under \<^verbatim>\<open>modules.http.server\<close>.\<close>

record http_config = app_config +
  http_port :: int
  http_templates_enabled :: bool
  http_templates_path :: string
  http_errors_obfuscate :: bool
  http_errors_stack :: bool
  http_trace_enabled :: bool
  http_trace_exclude :: "string list"
  http_log_headers :: "string \<rightharpoonup> string"
  http_log_exclude :: "string list"
  http_log_level_from_response :: bool
  http_metrics_collect_enabled :: bool
  http_metrics_collect_namespace :: string
  http_metrics_collect_subsystem :: string
  http_metrics_buckets :: string
  http_metrics_normalize :: bool

section \<open>Strings\<close>

text \<open>
  \<^verbatim>\<open>strings.ReplaceAll(s, old, new)\<close> for a pattern \<open>old\<close> of one byte, which is the
  only way the two modules call it (\<^verbatim>\<open>" "\<close> and \<^verbatim>\<open>"-"\<close>).
\<close>

definition ReplaceAll :: "string \<Rightarrow> char \<Rightarrow> string \<Rightarrow> string" where
  "ReplaceAll s old new = concat (map (\<lambda>c. if c = old then new else [c]) s)"

text \<open>
  \<^verbatim>\<open>strings.Split(s, sep)\<close> for a separator of one byte: the pieces of \<open>s\<close> between
  the separators, one more than there are separators (the empty string gives one empty
  piece).
\<close>

fun Split :: "string \<Rightarrow> char \<Rightarrow> string list" where
  "Split [] sep = [[]]"
| "Split (c # cs) sep =
     (if c = sep then [] # Split cs sep
      else (case Split cs sep of
              [] \<Rightarrow> [[c]]
            | w # ws \<Rightarrow> (c # w) # ws))"

section \<open>Metrics settings\<close>

definition grpc_ModuleName :: string where
  "grpc_ModuleName = ''grpcserver''"

definition http_ModuleName :: string where
  "http_ModuleName = ''httpserver''"

text \<open>
  The loop over the configured bucket boundaries, shared by both modules:
  \<^verbatim>\<open>f, err := strconv.ParseFloat(s, 64); if err == nil { buckets = append(buckets, f) }\<close>.
  \<^verbatim>\<open>strconv.ParseFloat\<close> is a parameter (\<open>parseFloat\<close>, \<open>None\<close> when it returns an
  error), and so is the type \<open>'f\<close> of the floating point values.
\<close>

fun appendParsed :: "(string \<Rightarrow> 'f option) \<Rightarrow> 'f list \<Rightarrow> string list \<Rightarrow> 'f list" where
  "appendParsed parseFloat buckets [] = buckets"
| "appendParsed parseFloat buckets (s # ss) =
     (case parseFloat s of
        Some f \<Rightarrow> appendParsed parseFloat (buckets @ [f]) ss
      | None \<Rightarrow> appendParsed parseFloat buckets ss)"

definition parseBuckets :: "(string \<Rightarrow> 'f option) \<Rightarrow> string \<Rightarrow> 'f list" where
  "parseBuckets parseFloat bucketsConfig =
     (if bucketsConfig \<noteq> []
      then appendParsed parseFloat [] (Split (ReplaceAll bucketsConfig (CHR '' '') []) (CHR '',''))
      else [])"

text \<open>
  The gRPC module falls back to \<^verbatim>\<open>prometheus.DefBuckets\<close> (the parameter
  \<open>DefBuckets\<close>) when the list is empty.
\<close>

definition grpcSrvMetricsBuckets :: "(string \<Rightarrow> 'f option) \<Rightarrow> 'f list \<Rightarrow> grpc_config \<Rightarrow> 'f list" where
  "grpcSrvMetricsBuckets parseFloat DefBuckets cfg =
     (let buckets = parseBuckets parseFloat (grpc_metrics_buckets cfg)
      in if length buckets = 0 then DefBuckets else buckets)"

definition grpcSrvMetricsSubsystem :: "grpc_config \<Rightarrow> string" where
  "grpcSrvMetricsSubsystem cfg =
     (let namespace = grpc_metrics_collect_namespace cfg;
          namespace = (if namespace = [] then AppName cfg else namespace);
          subsystem = grpc_metrics_collect_subsystem cfg;
          subsystem = (if subsystem = [] then grpc_ModuleName else subsystem)
      in ReplaceAll (namespace @ ''_'' @ subsystem) (CHR ''-'') ''_'')"

section \<open>Errors\<close>

text \<open>
  An \<open>error\<close> is what a Go function returns as its \<^verbatim>\<open>error\<close> result
  (\<open>HandlerError\<close> is one that the handler of a call returns), or what a panic or a
  fatal log line of a library carries; \<open>WrappedError\<close> is
  \<^verbatim>\<open>fmt.Errorf("...: %w", err)\<close>. A \<open>failure\<close> tells a returned error from a panic
  that leaves the function and from a fatal log line, which ends the process.
\<close>

datatype error =
    DuplicateRegistration
  | AlreadyRegisteredError string
  | InvalidMetricName string
  | DuplicateService string
  | HandlerTypeMismatch string
  | FactoryError
  | ListenError
  | ServeError
  | ShutdownError
  | HandlerError
  | RecoveredPanic
  | WrappedError string error

datatype failure = Returned error | Panicked error | Exited error

section \<open>The metrics registry\<close>

text \<open>
  \<^verbatim>\<open>prometheus.Registry\<close>, as the list of the collectors registered so far, each
  known by the subsystem that prefixes the names of all its metrics (the module sets no
  namespace, so a metric is named by the subsystem, an underscore and the library's own
  name of the metric).
\<close>

type_synonym metrics_registry = "string list"

text \<open>
  The metric names the registry accepts: letters, digits, \<open>_\<close> and \<open>:\<close>, and no digit
  first. The library's own names are of this kind, so the names of a collector are
  accepted when its subsystem is.
\<close>

definition metric_name_char :: "char \<Rightarrow> bool" where
  "metric_name_char c =
     (c \<in> set ''abcdefghijklmnopqrstuvwxyzABCDEFGHIJKLMNOPQRSTUVWXYZ0123456789_:'')"

definition metric_name_start :: "char \<Rightarrow> bool" where
  "metric_name_start c =
     (c \<in> set ''abcdefghijklmnopqrstuvwxyzABCDEFGHIJKLMNOPQRSTUVWXYZ_:'')"

fun valid_metric_name :: "string \<Rightarrow> bool" where
  "valid_metric_name [] = True"
| "valid_metric_name (c # cs) = (metric_name_start c \<and> list_all metric_name_char cs)"

text \<open>
  \<^verbatim>\<open>MustRegister\<close> is the library's: it panics when the registry refuses the
  collector, which it does when a name of its metrics is not a valid metric name, and when
  metrics of the same names are registered already.
\<close>

definition MustRegister :: "metrics_registry \<Rightarrow> string \<Rightarrow> failure + metrics_registry" where
  "MustRegister registry collector =
     (if \<not> valid_metric_name collector
      then Inl (Panicked (InvalidMetricName collector))
      else if collector \<in> set registry
      then Inl (Panicked (AlreadyRegisteredError collector))
      else Inr (registry @ [collector]))"

section \<open>The gRPC interceptors\<close>

text \<open>
  The filters of \<^verbatim>\<open>otelgrpc/filters\<close>, on the full method name of the call:
  \<^verbatim>\<open>FullMethodName(n)\<close> holds of the calls named \<open>n\<close>, \<^verbatim>\<open>Any\<close> holds when
  one of its filters does, \<^verbatim>\<open>None\<close> when none does. The tracing interceptor
  traces the calls its filter holds of.
\<close>

type_synonym otel_filter = "string \<Rightarrow> bool"

definition FullMethodName :: "string \<Rightarrow> otel_filter" where
  "FullMethodName n = (\<lambda>fullMethod. fullMethod = n)"

definition filters_Any :: "otel_filter list \<Rightarrow> otel_filter" where
  "filters_Any fs = (\<lambda>fullMethod. list_ex (\<lambda>f. f fullMethod) fs)"

definition filters_None :: "otel_filter list \<Rightarrow> otel_filter" where
  "filters_None fs = (\<lambda>fullMethod. \<not> filters_Any fs fullMethod)"

text \<open>
  An interceptor is modelled by what \<^verbatim>\<open>createInterceptors\<close> builds it from:
  the recovery interceptor by the debug flag of its handler, the tracing interceptor by
  its filter, the logging interceptor by its metadata map and its exclusions, the metrics
  interceptor by its subsystem and its buckets.
\<close>

datatype 'f interceptor =
    RecoveryInterceptor bool
  | OtelInterceptor otel_filter
  | LoggerInterceptor "string \<rightharpoonup> string" "string list"
  | MetricsInterceptor string "'f list"

definition createInterceptors ::
  "(string \<Rightarrow> 'f option) \<Rightarrow> 'f list \<Rightarrow> grpc_config \<Rightarrow> metrics_registry \<Rightarrow>
     failure + ('f interceptor list \<times> 'f interceptor list \<times> metrics_registry)" where
  "createInterceptors parseFloat DefBuckets cfg registry =
     (let unaryInterceptors = [RecoveryInterceptor (AppDebug cfg)];
          streamInterceptors = [RecoveryInterceptor (AppDebug cfg)];
          (unaryInterceptors, streamInterceptors) =
            (if grpc_trace_enabled cfg
             then (let methodFilters = map FullMethodName (grpc_trace_exclude cfg)
                   in (unaryInterceptors @ [OtelInterceptor (filters_None methodFilters)],
                       streamInterceptors @ [OtelInterceptor (filters_None methodFilters)]))
             else (unaryInterceptors, streamInterceptors));
          loggerInterceptor = LoggerInterceptor (grpc_log_metadata cfg) (grpc_log_exclude cfg);
          unaryInterceptors = unaryInterceptors @ [loggerInterceptor];
          streamInterceptors = streamInterceptors @ [loggerInterceptor]
      in if grpc_metrics_collect_enabled cfg
         then (let subsystem = grpcSrvMetricsSubsystem cfg;
                   buckets = grpcSrvMetricsBuckets parseFloat DefBuckets cfg
               in case MustRegister registry subsystem of
                    Inl e \<Rightarrow> Inl e
                  | Inr registry' \<Rightarrow>
                      Inr (unaryInterceptors @ [MetricsInterceptor subsystem buckets],
                           streamInterceptors @ [MetricsInterceptor subsystem buckets],
                           registry'))
         else Inr (unaryInterceptors, streamInterceptors, registry))"

section \<open>The HTTP middlewares\<close>

text \<open>
  A middleware is modelled by the configuration it is built from: the tracer by the
  service name and \<^verbatim>\<open>RequestUriPrefixesToExclude\<close>, the logger by
  \<^verbatim>\<open>RequestHeadersToLog\<close>, \<^verbatim>\<open>RequestUriPrefixesToExclude\<close> and
  \<^verbatim>\<open>LogLevelFromResponseOrErrorCode\<close>, the metrics middleware by
  \<^verbatim>\<open>Namespace\<close>, \<^verbatim>\<open>Subsystem\<close>, \<^verbatim>\<open>Buckets\<close> and
  \<^verbatim>\<open>NormalizeHTTPStatus\<close>. \<open>RecoverMiddleware\<close> is the one the server factory
  installs for the option \<^verbatim>\<open>WithRecovery(true)\<close>, \<open>RegisteredMiddleware\<close> one
  that the application registered.
\<close>

datatype 'f http_middleware =
    RecoverMiddleware
  | RequestIdMiddleware
  | RequestTracerMiddleware string "string list"
  | RequestLoggerMiddleware "string \<rightharpoonup> string" "string list" bool
  | RequestMetricsMiddleware string string "'f list" bool
  | RegisteredMiddleware string

text \<open>Two constants of the middleware package.\<close>

definition HeaderXRequestId :: string where
  "HeaderXRequestId = ''x-request-id''"

definition LogFieldRequestId :: string where
  "LogFieldRequestId = ''requestID''"

text \<open>
  \<^verbatim>\<open>echo.Echo\<close>: the options it was created with, the middlewares added with
  \<^verbatim>\<open>Pre\<close> and with \<^verbatim>\<open>Use\<close> (the first added is the outermost), the routes
  added with \<^verbatim>\<open>Add\<close> (method, path and the middlewares of the route) and the error
  lines written to its logger. The lines written with \<^verbatim>\<open>Debugf\<close> are left out.
\<close>

record 'f http_server =
  srv_debug :: bool
  srv_errorHandler :: "bool \<times> bool"
  srv_renderer :: "string option"
  srv_premiddleware :: "'f http_middleware list"
  srv_middleware :: "'f http_middleware list"
  srv_routes :: "(string \<times> string \<times> string list) list"
  srv_errors :: "(string \<times> error) list"

definition Use :: "'f http_server \<Rightarrow> 'f http_middleware \<Rightarrow> 'f http_server" where
  "Use httpServer m = httpServer\<lparr>srv_middleware := srv_middleware httpServer @ [m]\<rparr>"

definition Pre :: "'f http_server \<Rightarrow> 'f http_middleware \<Rightarrow> 'f http_server" where
  "Pre httpServer m = httpServer\<lparr>srv_premiddleware := srv_premiddleware httpServer @ [m]\<rparr>"

definition withDefaultMiddlewares ::
  "(string \<Rightarrow> 'f option) \<Rightarrow> 'f http_server \<Rightarrow> http_config \<Rightarrow> 'f http_server" where
  "withDefaultMiddlewares parseFloat httpServer cfg =
     (let httpServer = Use httpServer RequestIdMiddleware;
          httpServer =
            (if http_trace_enabled cfg
             then Use httpServer (RequestTracerMiddleware (AppName cfg) (http_trace_exclude cfg))
             else httpServer);
          requestHeadersToLog = [HeaderXRequestId \<mapsto> LogFieldRequestId] ++ http_log_headers cfg;
          httpServer =
            Use httpServer
              (RequestLoggerMiddleware requestHeadersToLog (http_log_exclude cfg)
                 (http_log_level_from_response cfg))
      in if http_metrics_collect_enabled cfg
         then (let namespace = http_metrics_collect_namespace cfg;
                   namespace = (if namespace = [] then AppName cfg else namespace);
                   subsystem = http_metrics_collect_subsystem cfg;
                   subsystem = (if subsystem = [] then http_ModuleName else subsystem);
                   buckets = parseBuckets parseFloat (http_metrics_buckets cfg)
               in Use httpServer
                    (RequestMetricsMiddleware
                       (ReplaceAll namespace (CHR ''-'') ''_'')
                       (ReplaceAll subsystem (CHR ''-'') ''_'')
                       buckets
                       (http_metrics_normalize cfg)))
         else httpServer)"

section \<open>The registries\<close>

text \<open>
  Modelled from the spec: the resolution of a registry (the code of
  \<^verbatim>\<open>GrpcServerRegistry\<close> and \<^verbatim>\<open>HttpServerRegistry\<close> is not among the sources).
  Section 4.7: resolution fails with a duplicate registration error if two registrations
  share the same identity, and otherwise returns the registrations in registration order.
  As in Go the result is a pair of a list and an error. The spec does not say which list
  comes with the error: it is a parameter, \<open>withError\<close>.
\<close>

definition Resolve :: "('a \<Rightarrow> 'i) \<Rightarrow> 'a list \<Rightarrow> 'a list \<Rightarrow> 'a list \<times> error option" where
  "Resolve identity withError registrations =
     (if distinct (map identity registrations)
      then (registrations, None)
      else (withError, Some DuplicateRegistration))"

text \<open>
  A gRPC service registration: the name of its service description, its implementation,
  and whether the implementation satisfies the handler type of the description.
\<close>

record grpc_service =
  Description :: string
  Implementation :: string
  SatisfiesHandlerType :: bool

text \<open>
  \<^verbatim>\<open>GrpcServerRegistry\<close>: the registered services, and the list its resolution
  returns beside an error.
\<close>

record GrpcServerRegistry =
  registeredServices :: "grpc_service list"
  servicesWithError :: "grpc_service list"

text \<open>
  Modelled from the spec: \<^verbatim>\<open>GrpcServerRegistry.ResolveGrpcServerServices\<close>, not among
  the sources. Section 4.7: the identity of a gRPC registration is its service
  description.
\<close>

definition ResolveGrpcServerServices :: "GrpcServerRegistry \<Rightarrow> grpc_service list \<times> error option" where
  "ResolveGrpcServerServices registry =
     Resolve Description (servicesWithError registry) (registeredServices registry)"

text \<open>An HTTP handler registration.\<close>

record http_handler =
  Method :: string
  Path :: string
  Handler :: string
  Middlewares :: "string list"

text \<open>
  A handlers group and a middleware registration, as the module reads them. The spec
  names three scopes of middlewares; the module installs the two global ones.
\<close>

record handlers_group =
  Prefix :: string
  GroupMiddlewares :: "string list"
  Handlers :: "http_handler list"

datatype MiddlewareKind = GlobalUse | GlobalPre | GroupLocal

text \<open>
  \<^verbatim>\<open>HttpServerRegistry\<close>: the registered handlers, the list their resolution returns
  beside an error, and what \<^verbatim>\<open>ResolveHandlersGroups\<close> and
  \<^verbatim>\<open>ResolveMiddlewares\<close> return (the spec gives no identity for groups and
  middlewares, so their resolution is a parameter).
\<close>

record HttpServerRegistry =
  registeredHandlers :: "http_handler list"
  handlersWithError :: "http_handler list"
  resolvedHandlersGroups :: "handlers_group list \<times> error option"
  resolvedMiddlewares :: "(MiddlewareKind \<times> string) list \<times> error option"

text \<open>
  Modelled from the spec: \<^verbatim>\<open>HttpServerRegistry.ResolveHandlers\<close>, not among the
  sources. Section 4.7: the identity of an HTTP registration is its method and path.
\<close>

definition ResolveHandlers :: "HttpServerRegistry \<Rightarrow> http_handler list \<times> error option" where
  "ResolveHandlers registry =
     Resolve (\<lambda>h. (Method h, Path h)) (handlersWithError registry) (registeredHandlers registry)"

section \<open>Building the gRPC server\<close>

text \<open>
  \<^verbatim>\<open>grpc.Server\<close>, by what the module gives it: the two interceptor chains, the
  reflection option and the services registered with \<^verbatim>\<open>RegisterService\<close>, in order.
  The server options of \<^verbatim>\<open>ResolveGrpcServerOptions\<close> are left out.
\<close>

record 'f grpc_server =
  grpc_unary :: "'f interceptor list"
  grpc_stream :: "'f interceptor list"
  grpc_reflection :: bool
  grpc_services :: "string list"

text \<open>
  \<^verbatim>\<open>grpc.Server.RegisterService\<close> is the library's: it ends the process with a fatal
  log line when the implementation does not satisfy the handler type of the description,
  and when a service of the same name is registered already. (It does so as well on a
  server that is serving, which a server under construction is not.)
\<close>

definition RegisterService :: "'f grpc_server \<Rightarrow> grpc_service \<Rightarrow> failure + 'f grpc_server" where
  "RegisterService grpcServer service =
     (if \<not> SatisfiesHandlerType service
      then Inl (Exited (HandlerTypeMismatch (Description service)))
      else if Description service \<in> set (grpc_services grpcServer)
      then Inl (Exited (DuplicateService (Description service)))
      else Inr (grpcServer\<lparr>grpc_services := grpc_services grpcServer @ [Description service]\<rparr>))"

text \<open>The loop over the resolved services.\<close>

fun registerServices :: "'f grpc_server \<Rightarrow> grpc_service list \<Rightarrow> failure + 'f grpc_server" where
  "registerServices grpcServer [] = Inr grpcServer"
| "registerServices grpcServer (service # services) =
     (case RegisterService grpcServer service of
        Inl e \<Rightarrow> Inl e
      | Inr grpcServer \<Rightarrow> registerServices grpcServer services)"

text \<open>The health check service of the module, under the description of the library.\<close>

definition Health_ServiceDesc :: string where
  "Health_ServiceDesc = ''grpc.health.v1.Health''"

definition GrpcHealthCheckService :: grpc_service where
  "GrpcHealthCheckService =
     \<lparr>Description = Health_ServiceDesc, Implementation = ''GrpcHealthCheckService'',
      SatisfiesHandlerType = True\<rparr>"

text \<open>
  \<^verbatim>\<open>FxGrpcServerParam\<close>. The life cycle is the list of the modules whose start
  and stop hooks were appended. The factory is replaceable: it gets the options as a
  server with no service yet, and returns the server or an error.
\<close>

record 'f FxGrpcServerParam =
  grpc_LifeCycle :: "string list"
  grpc_Factory :: "'f grpc_server \<Rightarrow> error + 'f grpc_server"
  grpc_Registry :: GrpcServerRegistry
  grpc_Config :: grpc_config
  grpc_MetricsRegistry :: metrics_registry

text \<open>
  The result is what \<^verbatim>\<open>NewFxGrpcServer\<close> returns (or the panic or the exit that
  ends it), the life cycle and the metrics registry after the call.
\<close>

definition NewFxGrpcServer ::
  "(string \<Rightarrow> 'f option) \<Rightarrow> 'f list \<Rightarrow> 'f FxGrpcServerParam \<Rightarrow>
     (failure + 'f grpc_server) \<times> string list \<times> metrics_registry" where
  "NewFxGrpcServer parseFloat DefBuckets p =
     (case createInterceptors parseFloat DefBuckets (grpc_Config p) (grpc_MetricsRegistry p) of
        Inl e \<Rightarrow> (Inl e, grpc_LifeCycle p, grpc_MetricsRegistry p)
      | Inr (unaryInterceptors, streamInterceptors, registry) \<Rightarrow>
          (case grpc_Factory p
                  \<lparr>grpc_unary = unaryInterceptors, grpc_stream = streamInterceptors,
                   grpc_reflection = grpc_reflection_enabled (grpc_Config p),
                   grpc_services = []\<rparr> of
             Inl err \<Rightarrow> (Inl (Returned err), grpc_LifeCycle p, registry)
           | Inr grpcServer \<Rightarrow>
               (case (if grpc_healthcheck_enabled (grpc_Config p)
                      then RegisterService grpcServer GrpcHealthCheckService
                      else Inr grpcServer) of
                  Inl e \<Rightarrow> (Inl e, grpc_LifeCycle p, registry)
                | Inr grpcServer \<Rightarrow>
                    (let (resolvedServices, err) = ResolveGrpcServerServices (grpc_Registry p)
                     in case err of
                          Some err \<Rightarrow> (Inl (Returned err), grpc_LifeCycle p, registry)
                        | None \<Rightarrow>
                            (case registerServices grpcServer resolvedServices of
                               Inl e \<Rightarrow> (Inl e, grpc_LifeCycle p, registry)
                             | Inr grpcServer \<Rightarrow>
                                 (Inr grpcServer,
                                  grpc_LifeCycle p @ [grpc_ModuleName],
                                  registry))))))"

section \<open>Building the HTTP server\<close>

text \<open>The options \<^verbatim>\<open>NewFxHttpServer\<close> hands to the factory (the logger is left out).\<close>

record http_options =
  opt_debug :: bool
  opt_banner :: bool
  opt_recovery :: bool
  opt_renderer :: "string option"
  opt_errorHandler :: "bool \<times> bool"

text \<open>
  Modelled from the spec: the default server factory (\<^verbatim>\<open>NewDefaultHttpServerFactory\<close>,
  whose code is not among the sources). Sections 4.2 and 4.6: recovery wraps every call
  and is the outermost concern, so with the recovery option the new server has the
  recovery middleware and nothing else.
\<close>

definition DefaultHttpServerFactory :: "http_options \<Rightarrow> error + 'f http_server" where
  "DefaultHttpServerFactory opts =
     Inr \<lparr>srv_debug = opt_debug opts,
          srv_errorHandler = opt_errorHandler opts,
          srv_renderer = opt_renderer opts,
          srv_premiddleware = [],
          srv_middleware = (if opt_recovery opts then [RecoverMiddleware] else []),
          srv_routes = [],
          srv_errors = []\<rparr>"

record 'f FxHttpServerParam =
  http_LifeCycle :: "string list"
  http_Factory :: "http_options \<Rightarrow> error + 'f http_server"
  http_Registry :: HttpServerRegistry
  http_Config :: http_config

text \<open>
  \<^verbatim>\<open>strings.ToUpper\<close>, on the ASCII letters: a byte above 127 is left as it is, so
  this is \<^verbatim>\<open>strings.ToUpper\<close> on ASCII strings only, which the names of the HTTP
  methods are.
\<close>

definition ToUpper :: "string \<Rightarrow> string" where
  "ToUpper s =
     map (\<lambda>c. if 97 \<le> (of_char c :: nat) \<and> (of_char c :: nat) \<le> 122
               then char_of ((of_char c :: nat) - 32) else c) s"

definition Add :: "'f http_server \<Rightarrow> string \<Rightarrow> string \<Rightarrow> string list \<Rightarrow> 'f http_server" where
  "Add httpServer method path middlewares =
     httpServer\<lparr>srv_routes := srv_routes httpServer @ [(method, path, middlewares)]\<rparr>"

definition Errorf :: "'f http_server \<Rightarrow> string \<Rightarrow> error \<Rightarrow> 'f http_server" where
  "Errorf httpServer msg err =
     httpServer\<lparr>srv_errors := srv_errors httpServer @ [(msg, err)]\<rparr>"

text \<open>
  A route of a group has the prefix of the group before its path and the middlewares of
  the group before its own.
\<close>

definition addGroup :: "'f http_server \<Rightarrow> handlers_group \<Rightarrow> 'f http_server" where
  "addGroup httpServer g =
     foldl (\<lambda>srv h. Add srv (ToUpper (Method h)) (Prefix g @ Path h)
                        (GroupMiddlewares g @ Middlewares h))
       httpServer (Handlers g)"

definition addMiddleware :: "'f http_server \<Rightarrow> MiddlewareKind \<times> string \<Rightarrow> 'f http_server" where
  "addMiddleware httpServer m =
     (let httpServer =
            (if fst m = GlobalPre then Pre httpServer (RegisteredMiddleware (snd m))
             else httpServer)
      in if fst m = GlobalUse then Use httpServer (RegisteredMiddleware (snd m))
         else httpServer)"

definition withRegisteredResources :: "'f http_server \<Rightarrow> HttpServerRegistry \<Rightarrow> 'f http_server" where
  "withRegisteredResources httpServer registry =
     (let (resolvedHandlersGroups, err) = resolvedHandlersGroups registry;
          httpServer =
            (case err of
               Some err \<Rightarrow> Errorf httpServer ''cannot resolve router handlers groups: %v'' err
             | None \<Rightarrow> httpServer);
          httpServer = foldl addGroup httpServer resolvedHandlersGroups;
          (resolvedMiddlewares, err) = resolvedMiddlewares registry;
          httpServer =
            (case err of
               Some err \<Rightarrow> Errorf httpServer ''cannot resolve router middlewares: %v'' err
             | None \<Rightarrow> httpServer);
          httpServer = foldl addMiddleware httpServer resolvedMiddlewares;
          (resolvedHandlers, err) = ResolveHandlers registry;
          httpServer =
            (case err of
               Some err \<Rightarrow> Errorf httpServer ''cannot resolve router handlers: %v'' err
             | None \<Rightarrow> httpServer)
      in foldl (\<lambda>srv h. Add srv (ToUpper (Method h)) (Path h) (Middlewares h))
           httpServer resolvedHandlers)"

definition NewFxHttpServer ::
  "(string \<Rightarrow> 'f option) \<Rightarrow> 'f FxHttpServerParam \<Rightarrow> (error + 'f http_server) \<times> string list" where
  "NewFxHttpServer parseFloat p =
     (let appDebug = AppDebug (http_Config p);
          renderer =
            (if http_templates_enabled (http_Config p)
             then Some (http_templates_path (http_Config p)) else None)
      in case http_Factory p
                \<lparr>opt_debug = appDebug, opt_banner = False, opt_recovery = True,
                 opt_renderer = renderer,
                 opt_errorHandler =
                   (http_errors_obfuscate (http_Config p) \<or> \<not> appDebug,
                    http_errors_stack (http_Config p) \<or> appDebug)\<rparr> of
           Inl err \<Rightarrow> (Inl (WrappedError ''failed to create http server'' err), http_LifeCycle p)
         | Inr httpServer \<Rightarrow>
             (let httpServer = withDefaultMiddlewares parseFloat httpServer (http_Config p);
                  httpServer = withRegisteredResources httpServer (http_Registry p)
              in (Inr httpServer, http_LifeCycle p @ [http_ModuleName])))"

section \<open>The life cycle hooks\<close>

text \<open>
  A listener is the in-memory one (with the size of its buffer) or a TCP socket on a port.
  What a hook does is the list of its calls to the outside, in order: binding a port,
  writing an error to the logger, serving on a listener (\<open>None\<close> is Go's \<^verbatim>\<open>nil\<close>
  listener), draining the gRPC server, shutting the HTTP server down, and a panic that no
  one recovers.
\<close>

datatype listener = Bufconn int | Tcp int

datatype event =
    NetListen int
  | LogError string
  | Serve "listener option"
  | GracefulStop
  | Shutdown
  | UnrecoveredPanic

text \<open>
  The outside world answers: whether binding a port fails, how \<^verbatim>\<open>grpc.Server.Serve\<close>
  ends on a listener (it returns an error or \<^verbatim>\<open>nil\<close>, or it panics), and what
  \<^verbatim>\<open>Shutdown\<close> returns.
\<close>

datatype serve_result = ServeReturned "error option" | ServePanicked

record world =
  net_Listen :: "int \<Rightarrow> error option"
  grpc_Serve :: "listener option \<Rightarrow> serve_result"
  echo_Shutdown :: "error option"

definition grpc_DefaultPort :: int where
  "grpc_DefaultPort = 50051"

definition http_DefaultPort :: int where
  "http_DefaultPort = 8080"

definition DefaultBufconnSize :: int where
  "DefaultBufconnSize = 1024 * 1024"

definition NewFxGrpcBufconnListener :: "grpc_config \<Rightarrow> listener" where
  "NewFxGrpcBufconnListener cfg =
     (let size = grpc_test_bufconn_size cfg;
          size = (if size = 0 then DefaultBufconnSize else size)
      in Bufconn size)"

text \<open>
  The start hook of the gRPC module: the calls of the hook and of the goroutine it
  starts, and the error the hook returns.
\<close>

definition grpc_OnStart :: "world \<Rightarrow> grpc_config \<Rightarrow> event list \<times> error option" where
  "grpc_OnStart w cfg =
     (let port = grpc_port cfg;
          port = (if port = 0 then grpc_DefaultPort else port);
          (lis, events) =
            (if IsTestEnv cfg then (Some (NewFxGrpcBufconnListener cfg), [])
             else (case net_Listen w port of
                     None \<Rightarrow> (Some (Tcp port), [NetListen port])
                   | Some err \<Rightarrow>
                       (None, [NetListen port,
                               LogError ''failed to listen on %d for grpc server''])));
          events = events @ [Serve lis] @
            (case grpc_Serve w lis of
               ServeReturned None \<Rightarrow> []
             | ServeReturned (Some err) \<Rightarrow> [LogError ''failed to serve grpc server'']
             | ServePanicked \<Rightarrow> [UnrecoveredPanic])
      in (events, None))"

definition grpc_OnStop :: "grpc_config \<Rightarrow> event list \<times> error option" where
  "grpc_OnStop cfg = (if \<not> IsTestEnv cfg then ([GracefulStop], None) else ([], None))"

text \<open>
  \<^verbatim>\<open>echo.Echo.Start(address)\<close> is the library's: it binds the address and serves on
  it, or returns the error of the binding.
\<close>

definition echo_Start :: "world \<Rightarrow> int \<Rightarrow> event list \<times> error option" where
  "echo_Start w port =
     (case net_Listen w port of
        None \<Rightarrow> ([NetListen port, Serve (Some (Tcp port))], None)
      | Some err \<Rightarrow> ([NetListen port], Some err))"

text \<open>The start hook of the HTTP module drops what \<^verbatim>\<open>Start\<close> returns.\<close>

definition http_OnStart :: "world \<Rightarrow> http_config \<Rightarrow> event list \<times> error option" where
  "http_OnStart w cfg =
     (if \<not> IsTestEnv cfg
      then (let port = http_port cfg;
                port = (if port = 0 then http_DefaultPort else port)
            in (fst (echo_Start w port), None))
      else ([], None))"

definition http_OnStop :: "world \<Rightarrow> http_config \<Rightarrow> event list \<times> error option" where
  "http_OnStop w cfg = (if \<not> IsTestEnv cfg then ([Shutdown], echo_Shutdown w) else ([], None))"

text \<open>
  The states of section 4.8. A server is serving once it was handed a bound listener to
  serve on; \<open>serving_on\<close> is that listener.
\<close>

datatype server_state = NotStarted | Serving | Stopping | Stopped

fun serving_on :: "event list \<Rightarrow> listener option" where
  "serving_on [] = None"
| "serving_on (Serve (Some l) # es) = Some l"
| "serving_on (e # es) = serving_on es"

definition state_after :: "event list \<Rightarrow> server_state" where
  "state_after events = (case serving_on events of None \<Rightarrow> NotStarted | Some l \<Rightarrow> Serving)"

definition logged :: "event list \<Rightarrow> string list" where
  "logged events = concat (map (\<lambda>e. case e of LogError msg \<Rightarrow> [msg] | _ \<Rightarrow> []) events)"

section \<open>What the concerns do on a call\<close>

text \<open>The four concerns of section 4.6, and the request id middleware.\<close>

datatype concern = Recovery | Tracing | Logging | Metrics | RequestId | Registered

fun concern_of :: "'f interceptor \<Rightarrow> concern" where
  "concern_of (RecoveryInterceptor debug) = Recovery"
| "concern_of (OtelInterceptor flt) = Tracing"
| "concern_of (LoggerInterceptor metadata exclusions) = Logging"
| "concern_of (MetricsInterceptor subsystem buckets) = Metrics"

fun http_concern_of :: "'f http_middleware \<Rightarrow> concern" where
  "http_concern_of RecoverMiddleware = Recovery"
| "http_concern_of RequestIdMiddleware = RequestId"
| "http_concern_of (RequestTracerMiddleware service excludes) = Tracing"
| "http_concern_of (RequestLoggerMiddleware headers excludes level) = Logging"
| "http_concern_of (RequestMetricsMiddleware namespace subsystem buckets norm) = Metrics"
| "http_concern_of (RegisteredMiddleware name) = Registered"

text \<open>
  Modelled from the spec: the exclusion test of the gRPC logging interceptor (the
  \<^verbatim>\<open>grpcserver\<close> package, whose code is not among the sources). Section 4.1:
  \<^verbatim>\<open>IsExcluded(callName, rules)\<close> is an exact match of the name against the rules.
\<close>

fun IsExcluded :: "string \<Rightarrow> string list \<Rightarrow> bool" where
  "IsExcluded callName [] = False"
| "IsExcluded callName (rule # rules) = (if callName = rule then True else IsExcluded callName rules)"

text \<open>A log record of a call: its method and its outcome, the error its handler returned.\<close>

record log_record =
  record_method :: string
  record_error :: "error option"

text \<open>
  Modelled from the spec: the gRPC logging interceptor on one call (the
  \<^verbatim>\<open>grpcserver\<close> package, whose code is not among the sources). Section 4.4: one
  record per call, with the method and the outcome; a call in the exclusion set is not
  logged unless it failed.
\<close>

definition loggerIntercept :: "string list \<Rightarrow> string \<Rightarrow> error option \<Rightarrow> log_record list" where
  "loggerIntercept exclusions fullMethod err =
     (if IsExcluded fullMethod exclusions \<and> err = None then []
      else [\<lparr>record_method = fullMethod, record_error = err\<rparr>])"

text \<open>
  A fault of a handler (a panic), and the error result the caller gets for it: its code,
  and the message and the stack of the fault where the payload has them.
\<close>

record fault =
  fault_message :: string
  fault_stack :: string

datatype result_code = Internal

record error_result =
  result_code :: result_code
  result_message :: "string option"
  result_stack :: "string option"

text \<open>
  Modelled from the spec: the recovery handler of the gRPC module
  (\<^verbatim>\<open>GrpcPanicRecoveryHandler.Handle\<close>, whose code is not among the sources). Section
  4.2: the fault becomes a standard internal error result, whose payload has the details
  of the fault (message, stack) only in debug mode, and is generic otherwise.
\<close>

definition Handle :: "bool \<Rightarrow> fault \<Rightarrow> error_result" where
  "Handle debug f =
     \<lparr>result_code = Internal,
      result_message = (if debug then Some (fault_message f) else None),
      result_stack = (if debug then Some (fault_stack f) else None)\<rparr>"

text \<open>
  Modelled from the spec: the error handler of the HTTP module
  (\<^verbatim>\<open>JsonErrorHandler\<close>, whose code is not among the sources), after section 4.2 as
  well. The module calls it with two flags, \<open>obfuscate\<close> and \<open>stack\<close>: the first makes
  the message generic, the second adds the stack.
\<close>

definition JsonErrorHandler :: "bool \<Rightarrow> bool \<Rightarrow> fault \<Rightarrow> error_result" where
  "JsonErrorHandler obfuscate stack f =
     \<lparr>result_code = Internal,
      result_message = (if obfuscate then None else Some (fault_message f)),
      result_stack = (if stack then Some (fault_stack f) else None)\<rparr>"

text \<open>What the caller gets when the handler panics, under a chain and under a server.\<close>

fun recovered :: "'f interceptor list \<Rightarrow> fault \<Rightarrow> error_result option" where
  "recovered [] f = None"
| "recovered (RecoveryInterceptor debug # rest) f = Some (Handle debug f)"
| "recovered (i # rest) f = recovered rest f"

definition http_recovered :: "'f http_server \<Rightarrow> fault \<Rightarrow> error_result" where
  "http_recovered httpServer f =
     JsonErrorHandler (fst (srv_errorHandler httpServer)) (snd (srv_errorHandler httpServer)) f"

text \<open>The payload has the details of the fault, or is generic.\<close>

definition has_details :: "error_result \<Rightarrow> fault \<Rightarrow> bool" where
  "has_details r f =
     (result_message r = Some (fault_message f) \<and> result_stack r = Some (fault_stack f))"

definition is_generic :: "error_result \<Rightarrow> bool" where
  "is_generic r = (result_message r = None \<and> result_stack r = None)"

text \<open>
  The histogram of the metrics interceptor is the library's (\<^verbatim>\<open>prometheus\<close>): it is
  created when a call is first observed, and creating it panics unless each bucket
  boundary is less than the next. The order of the boundaries is that of the type \<open>'f\<close>.
\<close>

fun increasing :: "('f::linorder) list \<Rightarrow> bool" where
  "increasing (a # b # bs) = (a < b \<and> increasing (b # bs))"
| "increasing bs = True"

definition histogram_panics :: "('f::linorder) list \<Rightarrow> bool" where
  "histogram_panics upperBounds = (\<not> increasing upperBounds)"

definition histogram_fault :: fault where
  "histogram_fault =
     \<lparr>fault_message = ''histogram buckets must be in increasing order'', fault_stack = []\<rparr>"

text \<open>
  How a call ends, seen from one layer of the chain: the handler (or the layer below)
  returned, with an error or without; or it panicked; or a recovery layer below turned a
  panic into an internal error result.
\<close>

datatype outcome = Done "error option" | Panic fault | Recovered error_result

text \<open>
  Modelled from the spec: what one interceptor makes of the outcome of the layers below it
  and which log records it adds (the interceptors' code is not among the sources).
  Section 4.2: recovery turns a fault into the internal error result, and the fault is
  always surfaced to the logging concern, whatever is excluded. Section 4.3: tracing does
  not alter the result. Section 4.4: the logging interceptor, as \<open>loggerIntercept\<close> has
  it; a panic passes through it. Section 4.5: the metrics interceptor observes the call
  when it returns, in its histogram.
\<close>

fun intercept ::
  "('f::linorder) interceptor \<Rightarrow> string \<Rightarrow> outcome \<times> log_record list \<Rightarrow> outcome \<times> log_record list" where
  "intercept (RecoveryInterceptor debug) fullMethod (Panic f, records) =
     (Recovered (Handle debug f),
      records @ [\<lparr>record_method = fullMethod, record_error = Some RecoveredPanic\<rparr>])"
| "intercept (RecoveryInterceptor debug) fullMethod (ended, records) = (ended, records)"
| "intercept (OtelInterceptor flt) fullMethod (ended, records) = (ended, records)"
| "intercept (LoggerInterceptor metadata exclusions) fullMethod (Done err, records) =
     (Done err, records @ loggerIntercept exclusions fullMethod err)"
| "intercept (LoggerInterceptor metadata exclusions) fullMethod (Recovered r, records) =
     (Recovered r, records @ loggerIntercept exclusions fullMethod (Some RecoveredPanic))"
| "intercept (LoggerInterceptor metadata exclusions) fullMethod (Panic f, records) =
     (Panic f, records)"
| "intercept (MetricsInterceptor subsystem buckets) fullMethod (Panic f, records) =
     (Panic f, records)"
| "intercept (MetricsInterceptor subsystem buckets) fullMethod (ended, records) =
     (if histogram_panics buckets then (Panic histogram_fault, records) else (ended, records))"

text \<open>
  A call under a chain: the first interceptor is the outermost, so the last one sees the
  outcome of the handler first. The result is what the caller gets and the log records of
  the call.
\<close>

definition run_chain ::
  "('f::linorder) interceptor list \<Rightarrow> string \<Rightarrow> outcome \<Rightarrow> outcome \<times> log_record list" where
  "run_chain chain fullMethod handled =
     foldr (\<lambda>i ended. intercept i fullMethod ended) chain (handled, [])"

text \<open>The settings of the metrics interceptors of a chain, and of the metrics middlewares.\<close>

fun metrics_settings :: "'f interceptor list \<Rightarrow> (string \<times> 'f list) list" where
  "metrics_settings [] = []"
| "metrics_settings (MetricsInterceptor subsystem buckets # rest) =
     (subsystem, buckets) # metrics_settings rest"
| "metrics_settings (i # rest) = metrics_settings rest"


section \<open>Example configurations\<close>

text \<open>
  The configuration reference of the module's README, and a stand-in for
  \<^verbatim>\<open>strconv.ParseFloat\<close> that knows the three numerals of that reference (a value is
  kept as its numeral).
\<close>

definition readme_grpc_config :: grpc_config where
  "readme_grpc_config =
     \<lparr>AppName = ''app'', AppDebug = True, IsTestEnv = False,
      grpc_port = 50051,
      grpc_reflection_enabled = True,
      grpc_healthcheck_enabled = True,
      grpc_trace_enabled = True,
      grpc_trace_exclude = [''/test.Service/Bidi''],
      grpc_log_metadata = [''x-foo'' \<mapsto> ''foo'', ''x-bar'' \<mapsto> ''bar''],
      grpc_log_exclude = [''/test.Service/Unary''],
      grpc_metrics_collect_enabled = True,
      grpc_metrics_collect_namespace = ''app'',
      grpc_metrics_collect_subsystem = ''grpcserver'',
      grpc_metrics_buckets = ''0.1, 1, 10'',
      grpc_test_bufconn_size = 1048576\<rparr>"

definition numeral_of :: "string \<Rightarrow> string option" where
  "numeral_of s = (if s = ''0.1'' \<or> s = ''1'' \<or> s = ''10'' then Some s else None)"

text \<open>Another stand-in, where a value is kept as the number of its tenths.\<close>

definition tenths_of :: "string \<Rightarrow> int option" where
  "tenths_of s =
     (if s = ''0.1'' then Some 1 else if s = ''1'' then Some 10
      else if s = ''10'' then Some 100 else None)"

text \<open>An HTTP configuration with every optional concern on, and with dashes in the names.\<close>

definition sample_http_config :: http_config where
  "sample_http_config =
     \<lparr>AppName = ''my-app'', AppDebug = False, IsTestEnv = False,
      http_port = 0,
      http_templates_enabled = False,
      http_templates_path = [],
      http_errors_obfuscate = False,
      http_errors_stack = False,
      http_trace_enabled = True,
      http_trace_exclude = [''/health''],
      http_log_headers = Map.empty,
      http_log_exclude = [''/health''],
      http_log_level_from_response = True,
      http_metrics_collect_enabled = True,
      http_metrics_collect_namespace = [],
      http_metrics_collect_subsystem = ''http-server'',
      http_metrics_buckets = ''1,x, 10'',
      http_metrics_normalize = True\<rparr>"


text \<open>
  Two worlds: one where every port can be bound and serving ends without error, and one
  where no port can be bound.
\<close>

definition world_up :: world where
  "world_up =
     \<lparr>net_Listen = (\<lambda>port. None),
      grpc_Serve = (\<lambda>lis. ServeReturned None),
      echo_Shutdown = None\<rparr>"

definition world_bind_fails :: world where
  "world_bind_fails =
     \<lparr>net_Listen = (\<lambda>port. Some ListenError),
      grpc_Serve = (\<lambda>lis. ServeReturned (Some ServeError)),
      echo_Shutdown = None\<rparr>"

text \<open>
  Parameters where the same registration was made twice, and parameters with two different
  registrations.
\<close>

definition duplicate_grpc_param :: "string FxGrpcServerParam" where
  "duplicate_grpc_param =
     \<lparr>grpc_LifeCycle = [],
      grpc_Factory = Inr,
      grpc_Registry =
        \<lparr>registeredServices =
           [\<lparr>Description = ''test.Service'', Implementation = ''TestServiceServer'',
             SatisfiesHandlerType = True\<rparr>,
            \<lparr>Description = ''test.Service'', Implementation = ''TestServiceServer'',
             SatisfiesHandlerType = True\<rparr>],
         servicesWithError = []\<rparr>,
      grpc_Config = readme_grpc_config,
      grpc_MetricsRegistry = []\<rparr>"

definition distinct_grpc_param :: "string FxGrpcServerParam" where
  "distinct_grpc_param =
     \<lparr>grpc_LifeCycle = [],
      grpc_Factory = Inr,
      grpc_Registry =
        \<lparr>registeredServices =
           [\<lparr>Description = ''test.Service'', Implementation = ''TestServiceServer'',
             SatisfiesHandlerType = True\<rparr>,
            \<lparr>Description = ''test.Other'', Implementation = ''OtherServer'',
             SatisfiesHandlerType = True\<rparr>],
         servicesWithError = []\<rparr>,
      grpc_Config = readme_grpc_config,
      grpc_MetricsRegistry = []\<rparr>"

definition duplicate_http_param :: "string FxHttpServerParam" where
  "duplicate_http_param =
     \<lparr>http_LifeCycle = [],
      http_Factory = DefaultHttpServerFactory,
      http_Registry =
        \<lparr>registeredHandlers =
           [\<lparr>Method = ''GET'', Path = ''/users'', Handler = ''ListUsers'', Middlewares = []\<rparr>,
            \<lparr>Method = ''GET'', Path = ''/users'', Handler = ''ListUsers'', Middlewares = []\<rparr>],
         handlersWithError = [],
         resolvedHandlersGroups = ([], None),
         resolvedMiddlewares = ([], None)\<rparr>,
      http_Config = sample_http_config\<rparr>"

definition distinct_http_param :: "string FxHttpServerParam" where
  "distinct_http_param =
     \<lparr>http_LifeCycle = [],
      http_Factory = DefaultHttpServerFactory,
      http_Registry =
        \<lparr>registeredHandlers =
           [\<lparr>Method = ''GET'', Path = ''/users'', Handler = ''ListUsers'', Middlewares = []\<rparr>,
            \<lparr>Method = ''POST'', Path = ''/users'', Handler = ''AddUser'', Middlewares = []\<rparr>],
         handlersWithError = [],
         resolvedHandlersGroups = ([], None),
         resolvedMiddlewares = ([(GlobalUse, ''cors'')], None)\<rparr>,
      http_Config = sample_http_config\<rparr>"

text \<open>The parameters of an HTTP server with the default factory and nothing registered.\<close>

definition sample_http_param :: "http_config \<Rightarrow> string FxHttpServerParam" where
  "sample_http_param cfg =
     \<lparr>http_LifeCycle = [],
      http_Factory = DefaultHttpServerFactory,
      http_Registry =
        \<lparr>registeredHandlers = [],
         handlersWithError = [],
         resolvedHandlersGroups = ([], None),
         resolvedMiddlewares = ([], None)\<rparr>,
      http_Config = cfg\<rparr>"

definition sample_fault :: fault where
  "sample_fault =
     \<lparr>fault_message = ''nil pointer dereference'', fault_stack = ''goroutine 1 [running]''\<rparr>"

section \<open>Strings: facts\<close>



lemma ReplaceAll_append: "ReplaceAll (s @ t) c new = ReplaceAll s c new @ ReplaceAll t c new"
  by (simp add: ReplaceAll_def)

lemma Split_not_Nil: "Split s sep \<noteq> []"
  by (induction s) (auto split: list.splits)


lemma Split_join: "tl (concat (map (\<lambda>w. sep # w) (Split s sep))) = s"
proof (induction s)
  case Nil
  show ?case by simp
next
  case (Cons c cs)
  then show ?case
    by (cases "Split cs sep") (auto simp: Split_not_Nil)
qed

lemma Split_length: "length (Split s sep) = Suc (count_list s sep)"
  by (induction s) (auto split: list.splits simp: Split_not_Nil)



lemma IsExcluded_set: "IsExcluded n rules = (n \<in> set rules)"
  by (induction rules) auto

section \<open>What the builders build\<close>

lemma createInterceptors_Inr:
  assumes "createInterceptors parseFloat DefBuckets cfg registry = Inr (unary, stream, registry')"
  shows "unary =
           [RecoveryInterceptor (AppDebug cfg)] @
           (if grpc_trace_enabled cfg
            then [OtelInterceptor (filters_None (map FullMethodName (grpc_trace_exclude cfg)))]
            else []) @
           [LoggerInterceptor (grpc_log_metadata cfg) (grpc_log_exclude cfg)] @
           (if grpc_metrics_collect_enabled cfg
            then [MetricsInterceptor (grpcSrvMetricsSubsystem cfg)
                    (grpcSrvMetricsBuckets parseFloat DefBuckets cfg)]
            else [])"
    and "stream = unary"
    and "registry' =
           (if grpc_metrics_collect_enabled cfg then registry @ [grpcSrvMetricsSubsystem cfg]
            else registry)"
  using assms
  by (auto simp: createInterceptors_def MustRegister_def Let_def split: if_splits sum.splits)

lemma createInterceptors_Inl:
  "createInterceptors parseFloat DefBuckets cfg registry = Inl e \<longleftrightarrow>
     grpc_metrics_collect_enabled cfg \<and>
     MustRegister registry (grpcSrvMetricsSubsystem cfg) = Inl e"
  by (auto simp: createInterceptors_def Let_def split: if_splits sum.splits)

lemma createInterceptors_registered:
  assumes "(if grpc_metrics_collect_enabled cfg
            then MustRegister registry (grpcSrvMetricsSubsystem cfg) else Inr registry) =
           Inr registry'"
  shows "createInterceptors parseFloat DefBuckets cfg registry =
           Inr ([RecoveryInterceptor (AppDebug cfg)] @
                (if grpc_trace_enabled cfg
                 then [OtelInterceptor (filters_None (map FullMethodName (grpc_trace_exclude cfg)))]
                 else []) @
                [LoggerInterceptor (grpc_log_metadata cfg) (grpc_log_exclude cfg)] @
                (if grpc_metrics_collect_enabled cfg
                 then [MetricsInterceptor (grpcSrvMetricsSubsystem cfg)
                         (grpcSrvMetricsBuckets parseFloat DefBuckets cfg)]
                 else []),
                [RecoveryInterceptor (AppDebug cfg)] @
                (if grpc_trace_enabled cfg
                 then [OtelInterceptor (filters_None (map FullMethodName (grpc_trace_exclude cfg)))]
                 else []) @
                [LoggerInterceptor (grpc_log_metadata cfg) (grpc_log_exclude cfg)] @
                (if grpc_metrics_collect_enabled cfg
                 then [MetricsInterceptor (grpcSrvMetricsSubsystem cfg)
                         (grpcSrvMetricsBuckets parseFloat DefBuckets cfg)]
                 else []),
                registry')"
  using assms by (auto simp: createInterceptors_def Let_def split: if_splits)

lemma withDefaultMiddlewares_middleware:
  "srv_middleware (withDefaultMiddlewares parseFloat httpServer cfg) =
     srv_middleware httpServer @ [RequestIdMiddleware] @
     (if http_trace_enabled cfg
      then [RequestTracerMiddleware (AppName cfg) (http_trace_exclude cfg)] else []) @
     [RequestLoggerMiddleware ([HeaderXRequestId \<mapsto> LogFieldRequestId] ++ http_log_headers cfg)
        (http_log_exclude cfg) (http_log_level_from_response cfg)] @
     (if http_metrics_collect_enabled cfg
      then [RequestMetricsMiddleware
              (ReplaceAll (if http_metrics_collect_namespace cfg = [] then AppName cfg
                           else http_metrics_collect_namespace cfg) (CHR ''-'') ''_'')
              (ReplaceAll (if http_metrics_collect_subsystem cfg = [] then http_ModuleName
                           else http_metrics_collect_subsystem cfg) (CHR ''-'') ''_'')
              (parseBuckets parseFloat (http_metrics_buckets cfg))
              (http_metrics_normalize cfg)]
      else [])"
  by (simp add: withDefaultMiddlewares_def Use_def Let_def)

lemma withDefaultMiddlewares_other:
  "srv_errorHandler (withDefaultMiddlewares parseFloat httpServer cfg) = srv_errorHandler httpServer"
  "srv_premiddleware (withDefaultMiddlewares parseFloat httpServer cfg) = srv_premiddleware httpServer"
  "srv_routes (withDefaultMiddlewares parseFloat httpServer cfg) = srv_routes httpServer"
  "srv_errors (withDefaultMiddlewares parseFloat httpServer cfg) = srv_errors httpServer"
  by (simp_all add: withDefaultMiddlewares_def Use_def Let_def)

lemma foldl_Add_middleware:
  "srv_middleware (foldl (\<lambda>srv h. Add srv (m h) (pa h) (mw h)) httpServer hs) = srv_middleware httpServer"
  by (induction hs arbitrary: httpServer) (simp_all add: Add_def)

lemma foldl_Add_errorHandler:
  "srv_errorHandler (foldl (\<lambda>srv h. Add srv (m h) (pa h) (mw h)) httpServer hs) = srv_errorHandler httpServer"
  by (induction hs arbitrary: httpServer) (simp_all add: Add_def)

lemma foldl_addGroup_middleware:
  "srv_middleware (foldl addGroup httpServer gs) = srv_middleware httpServer"
  by (induction gs arbitrary: httpServer) (simp_all add: addGroup_def foldl_Add_middleware)

lemma foldl_addGroup_errorHandler:
  "srv_errorHandler (foldl addGroup httpServer gs) = srv_errorHandler httpServer"
  by (induction gs arbitrary: httpServer) (simp_all add: addGroup_def foldl_Add_errorHandler)

lemma foldl_addMiddleware_middleware:
  "srv_middleware (foldl addMiddleware httpServer ms) =
     srv_middleware httpServer @ map (\<lambda>m. RegisteredMiddleware (snd m)) (filter (\<lambda>m. fst m = GlobalUse) ms)"
  by (induction ms arbitrary: httpServer) (auto simp: addMiddleware_def Use_def Pre_def Let_def)

lemma foldl_addMiddleware_errorHandler:
  "srv_errorHandler (foldl addMiddleware httpServer ms) = srv_errorHandler httpServer"
  by (induction ms arbitrary: httpServer) (auto simp: addMiddleware_def Use_def Pre_def Let_def)

lemma withRegisteredResources_middleware:
  "srv_middleware (withRegisteredResources httpServer registry) =
     srv_middleware httpServer @
     map (\<lambda>m. RegisteredMiddleware (snd m))
       (filter (\<lambda>m. fst m = GlobalUse) (fst (resolvedMiddlewares registry)))"
  by (simp add: withRegisteredResources_def Let_def split_beta foldl_Add_middleware
      foldl_addMiddleware_middleware foldl_addGroup_middleware Errorf_def split: option.splits)

lemma withRegisteredResources_errorHandler:
  "srv_errorHandler (withRegisteredResources httpServer registry) = srv_errorHandler httpServer"
  by (simp add: withRegisteredResources_def Let_def split_beta foldl_Add_errorHandler
      foldl_addMiddleware_errorHandler foldl_addGroup_errorHandler Errorf_def split: option.splits)

lemma NewFxHttpServer_Inr:
  assumes "http_Factory p
             \<lparr>opt_debug = AppDebug (http_Config p), opt_banner = False, opt_recovery = True,
              opt_renderer =
                (if http_templates_enabled (http_Config p)
                 then Some (http_templates_path (http_Config p)) else None),
              opt_errorHandler =
                (http_errors_obfuscate (http_Config p) \<or> \<not> AppDebug (http_Config p),
                 http_errors_stack (http_Config p) \<or> AppDebug (http_Config p))\<rparr> = Inr httpServer"
  shows "NewFxHttpServer parseFloat p =
           (Inr (withRegisteredResources
                   (withDefaultMiddlewares parseFloat httpServer (http_Config p))
                   (http_Registry p)),
            http_LifeCycle p @ [http_ModuleName])"
  using assms by (simp add: NewFxHttpServer_def Let_def)

lemma NewFxHttpServer_default:
  assumes "http_Factory p = DefaultHttpServerFactory"
  shows "\<not> isl (fst (NewFxHttpServer parseFloat p))"
    and "srv_errorHandler (projr (fst (NewFxHttpServer parseFloat p))) =
           (http_errors_obfuscate (http_Config p) \<or> \<not> AppDebug (http_Config p),
            http_errors_stack (http_Config p) \<or> AppDebug (http_Config p))"
    and "snd (NewFxHttpServer parseFloat p) = http_LifeCycle p @ [http_ModuleName]"
  using assms
  by (simp_all add: NewFxHttpServer_def Let_def DefaultHttpServerFactory_def
      withRegisteredResources_errorHandler withDefaultMiddlewares_other)

lemma filters_None_FullMethodName:
  "filters_None (map FullMethodName ns) m = (m \<notin> set ns)"
  by (induction ns) (auto simp: filters_None_def filters_Any_def FullMethodName_def)

section \<open>The order of the chain\<close>

lemma readme_grpc_chain:
  "createInterceptors numeral_of [''0.005''] readme_grpc_config [] =
     Inr ([RecoveryInterceptor True,
           OtelInterceptor (filters_None [FullMethodName ''/test.Service/Bidi'']),
           LoggerInterceptor [''x-foo'' \<mapsto> ''foo'', ''x-bar'' \<mapsto> ''bar''] [''/test.Service/Unary''],
           MetricsInterceptor ''app_grpcserver'' [''0.1'', ''1'', ''10'']],
          [RecoveryInterceptor True,
           OtelInterceptor (filters_None [FullMethodName ''/test.Service/Bidi'']),
           LoggerInterceptor [''x-foo'' \<mapsto> ''foo'', ''x-bar'' \<mapsto> ''bar''] [''/test.Service/Unary''],
           MetricsInterceptor ''app_grpcserver'' [''0.1'', ''1'', ''10'']],
          [''app_grpcserver''])"
  by (simp add: createInterceptors_def readme_grpc_config_def MustRegister_def
      grpcSrvMetricsSubsystem_def grpcSrvMetricsBuckets_def parseBuckets_def ReplaceAll_def
      grpc_ModuleName_def numeral_of_def metric_name_char_def metric_name_start_def Let_def)

lemma readme_registered:
  "(if grpc_metrics_collect_enabled readme_grpc_config
    then MustRegister [] (grpcSrvMetricsSubsystem readme_grpc_config) else Inr []) =
   Inr [''app_grpcserver'']"
  by (simp add: readme_grpc_config_def MustRegister_def grpcSrvMetricsSubsystem_def
      ReplaceAll_def metric_name_char_def metric_name_start_def Let_def)

lemma NewFxHttpServer_middleware:
  assumes "http_Factory p
             \<lparr>opt_debug = AppDebug (http_Config p), opt_banner = False, opt_recovery = True,
              opt_renderer =
                (if http_templates_enabled (http_Config p)
                 then Some (http_templates_path (http_Config p)) else None),
              opt_errorHandler =
                (http_errors_obfuscate (http_Config p) \<or> \<not> AppDebug (http_Config p),
                 http_errors_stack (http_Config p) \<or> AppDebug (http_Config p))\<rparr> = Inr httpServer"
  shows "\<exists>srv. NewFxHttpServer parseFloat p = (Inr srv, http_LifeCycle p @ [''httpserver''])
           \<and> map http_concern_of (srv_middleware srv) =
               map http_concern_of (srv_middleware httpServer) @ [RequestId] @
               (if http_trace_enabled (http_Config p) then [Tracing] else []) @
               [Logging] @
               (if http_metrics_collect_enabled (http_Config p) then [Metrics] else []) @
               map (\<lambda>m. Registered)
                 (filter (\<lambda>m. fst m = GlobalUse) (fst (resolvedMiddlewares (http_Registry p))))"
  by (simp add: NewFxHttpServer_Inr [OF assms] withRegisteredResources_middleware
      withDefaultMiddlewares_middleware http_ModuleName_def comp_def)

text \<open>
  C1. \<^verbatim>\<open>createInterceptors\<close> fails only when the registration of the metrics collector
  panics; whenever it does not, the unary chain and the streaming chain are Recovery, then
  Tracing if it is enabled, then Logging, then Metrics if it is enabled.
  \<^verbatim>\<open>NewFxHttpServer\<close> asks the factory for recovery and then adds, after the
  middlewares of the server the factory returns, the request id middleware, then Tracing
  if enabled, Logging, Metrics if enabled, and then the registered global middlewares;
  with the default factory the four concerns of the server are Recovery, Tracing if
  enabled, Logging, Metrics if enabled, in this order.
\<close>

theorem chain_order:
  fixes cfg :: grpc_config and hp :: "'f FxHttpServerParam"
  defines "chain \<equiv> [Recovery] @ (if grpc_trace_enabled cfg then [Tracing] else []) @
                    [Logging] @ (if grpc_metrics_collect_enabled cfg then [Metrics] else [])"
  defines "hchain \<equiv> (if http_trace_enabled (http_Config hp) then [Tracing] else []) @
                     [Logging] @
                     (if http_metrics_collect_enabled (http_Config hp) then [Metrics] else [])"
  shows "(createInterceptors parseFloat DefBuckets cfg registry = Inl e) =
           (grpc_metrics_collect_enabled cfg \<and>
            MustRegister registry (grpcSrvMetricsSubsystem cfg) = Inl e)
       \<and> ((if grpc_metrics_collect_enabled cfg
            then MustRegister registry (grpcSrvMetricsSubsystem cfg) else Inr registry) =
           Inr registry' \<longrightarrow>
            (\<exists>unary stream.
               createInterceptors parseFloat DefBuckets cfg registry = Inr (unary, stream, registry')
             \<and> map concern_of unary = chain \<and> map concern_of stream = chain))
       \<and> (http_Factory hp
             \<lparr>opt_debug = AppDebug (http_Config hp), opt_banner = False, opt_recovery = True,
              opt_renderer =
                (if http_templates_enabled (http_Config hp)
                 then Some (http_templates_path (http_Config hp)) else None),
              opt_errorHandler =
                (http_errors_obfuscate (http_Config hp) \<or> \<not> AppDebug (http_Config hp),
                 http_errors_stack (http_Config hp) \<or> AppDebug (http_Config hp))\<rparr> = Inr httpServer \<longrightarrow>
            (\<exists>srv. NewFxHttpServer parseFloat hp = (Inr srv, http_LifeCycle hp @ [''httpserver''])
                \<and> map http_concern_of (srv_middleware srv) =
                    map http_concern_of (srv_middleware httpServer) @ [RequestId] @ hchain @
                    map (\<lambda>m. Registered)
                      (filter (\<lambda>m. fst m = GlobalUse) (fst (resolvedMiddlewares (http_Registry hp))))))
       \<and> (http_Factory hp = DefaultHttpServerFactory \<longrightarrow>
            (\<exists>srv. NewFxHttpServer parseFloat hp = (Inr srv, http_LifeCycle hp @ [''httpserver''])
                \<and> filter (\<lambda>c. c = Recovery \<or> c = Tracing \<or> c = Logging \<or> c = Metrics)
                     (map http_concern_of (srv_middleware srv)) = [Recovery] @ hchain))"
proof -
  have 1: "(createInterceptors parseFloat DefBuckets cfg registry = Inl e) =
           (grpc_metrics_collect_enabled cfg \<and>
            MustRegister registry (grpcSrvMetricsSubsystem cfg) = Inl e)"
    by (rule createInterceptors_Inl)
  have 2: "(if grpc_metrics_collect_enabled cfg
            then MustRegister registry (grpcSrvMetricsSubsystem cfg) else Inr registry) =
           Inr registry' \<longrightarrow>
            (\<exists>unary stream.
               createInterceptors parseFloat DefBuckets cfg registry = Inr (unary, stream, registry')
             \<and> map concern_of unary = chain \<and> map concern_of stream = chain)"
  proof
    assume r: "(if grpc_metrics_collect_enabled cfg
            then MustRegister registry (grpcSrvMetricsSubsystem cfg) else Inr registry) =
           Inr registry'"
    show "\<exists>unary stream.
               createInterceptors parseFloat DefBuckets cfg registry = Inr (unary, stream, registry')
             \<and> map concern_of unary = chain \<and> map concern_of stream = chain"
      unfolding createInterceptors_registered [OF r] chain_def by simp
  qed
  have 3: "http_Factory hp
             \<lparr>opt_debug = AppDebug (http_Config hp), opt_banner = False, opt_recovery = True,
              opt_renderer =
                (if http_templates_enabled (http_Config hp)
                 then Some (http_templates_path (http_Config hp)) else None),
              opt_errorHandler =
                (http_errors_obfuscate (http_Config hp) \<or> \<not> AppDebug (http_Config hp),
                 http_errors_stack (http_Config hp) \<or> AppDebug (http_Config hp))\<rparr> = Inr httpServer \<longrightarrow>
            (\<exists>srv. NewFxHttpServer parseFloat hp = (Inr srv, http_LifeCycle hp @ [''httpserver''])
                \<and> map http_concern_of (srv_middleware srv) =
                    map http_concern_of (srv_middleware httpServer) @ [RequestId] @ hchain @
                    map (\<lambda>m. Registered)
                      (filter (\<lambda>m. fst m = GlobalUse) (fst (resolvedMiddlewares (http_Registry hp)))))"
    using NewFxHttpServer_middleware [of hp httpServer parseFloat] by (simp add: hchain_def)
  have 4: "http_Factory hp = DefaultHttpServerFactory \<longrightarrow>
            (\<exists>srv. NewFxHttpServer parseFloat hp = (Inr srv, http_LifeCycle hp @ [''httpserver''])
                \<and> filter (\<lambda>c. c = Recovery \<or> c = Tracing \<or> c = Logging \<or> c = Metrics)
                     (map http_concern_of (srv_middleware srv)) = [Recovery] @ hchain)"
  proof
    assume d: "http_Factory hp = DefaultHttpServerFactory"
    obtain srv0 :: "'f http_server" where f: "http_Factory hp
             \<lparr>opt_debug = AppDebug (http_Config hp), opt_banner = False, opt_recovery = True,
              opt_renderer =
                (if http_templates_enabled (http_Config hp)
                 then Some (http_templates_path (http_Config hp)) else None),
              opt_errorHandler =
                (http_errors_obfuscate (http_Config hp) \<or> \<not> AppDebug (http_Config hp),
                 http_errors_stack (http_Config hp) \<or> AppDebug (http_Config hp))\<rparr> = Inr srv0"
      and m: "srv_middleware srv0 = [RecoverMiddleware]"
      by (simp add: d DefaultHttpServerFactory_def)
    from NewFxHttpServer_middleware [OF f, of parseFloat] obtain srv where
      s: "NewFxHttpServer parseFloat hp = (Inr srv, http_LifeCycle hp @ [''httpserver''])"
      and c: "map http_concern_of (srv_middleware srv) =
               map http_concern_of (srv_middleware srv0) @ [RequestId] @
               (if http_trace_enabled (http_Config hp) then [Tracing] else []) @
               [Logging] @
               (if http_metrics_collect_enabled (http_Config hp) then [Metrics] else []) @
               map (\<lambda>m. Registered)
                 (filter (\<lambda>m. fst m = GlobalUse) (fst (resolvedMiddlewares (http_Registry hp))))"
      by blast
    have "filter (\<lambda>c. c = Recovery \<or> c = Tracing \<or> c = Logging \<or> c = Metrics)
                     (map http_concern_of (srv_middleware srv)) = [Recovery] @ hchain"
      unfolding c m hchain_def by (simp add: filter_map comp_def)
    with s show "\<exists>srv. NewFxHttpServer parseFloat hp = (Inr srv, http_LifeCycle hp @ [''httpserver''])
                \<and> filter (\<lambda>c. c = Recovery \<or> c = Tracing \<or> c = Logging \<or> c = Metrics)
                     (map http_concern_of (srv_middleware srv)) = [Recovery] @ hchain"
      by blast
  qed
  from 1 2 3 4 show ?thesis by blast
qed

theorem chain_order_witness:
  "map concern_of (fst (projr (createInterceptors numeral_of [''0.005''] readme_grpc_config []))) =
     [Recovery, Tracing, Logging, Metrics]
   \<and> map concern_of
       (fst (snd (projr (createInterceptors numeral_of [''0.005''] readme_grpc_config [])))) =
     [Recovery, Tracing, Logging, Metrics]
   \<and> map concern_of
       (fst (projr (createInterceptors numeral_of [''0.005'']
          (readme_grpc_config\<lparr>grpc_trace_enabled := False, grpc_metrics_collect_enabled := False\<rparr>)
          [''app_grpcserver'']))) =
     [Recovery, Logging]
   \<and> map http_concern_of
       (srv_middleware (projr (fst (NewFxHttpServer numeral_of distinct_http_param)))) =
     [Recovery, RequestId, Tracing, Logging, Metrics, Registered]
   \<and> filter (\<lambda>c. c = Recovery \<or> c = Tracing \<or> c = Logging \<or> c = Metrics)
       (map http_concern_of
          (srv_middleware (projr (fst (NewFxHttpServer numeral_of distinct_http_param))))) =
     [Recovery, Tracing, Logging, Metrics]"
proof -
  have r1: "(if grpc_metrics_collect_enabled readme_grpc_config
             then MustRegister [] (grpcSrvMetricsSubsystem readme_grpc_config) else Inr []) =
            Inr [''app_grpcserver'']"
    by (simp add: readme_grpc_config_def MustRegister_def grpcSrvMetricsSubsystem_def
        ReplaceAll_def metric_name_char_def metric_name_start_def Let_def)
  have r2: "(if grpc_metrics_collect_enabled
                 (readme_grpc_config\<lparr>grpc_trace_enabled := False, grpc_metrics_collect_enabled := False\<rparr>)
             then MustRegister [''app_grpcserver'']
                    (grpcSrvMetricsSubsystem
                       (readme_grpc_config\<lparr>grpc_trace_enabled := False, grpc_metrics_collect_enabled := False\<rparr>))
             else Inr [''app_grpcserver'']) =
            Inr [''app_grpcserver'']"
    by simp
  have f: "http_Factory distinct_http_param = DefaultHttpServerFactory"
    by (simp add: distinct_http_param_def)
  note a = chain_order [where cfg = readme_grpc_config and registry = "[]"
      and registry' = "[''app_grpcserver'']" and parseFloat = numeral_of
      and DefBuckets = "[''0.005'']" and hp = distinct_http_param]
  note b = chain_order [where cfg = "readme_grpc_config\<lparr>grpc_trace_enabled := False,
        grpc_metrics_collect_enabled := False\<rparr>" and registry = "[''app_grpcserver'']"
      and registry' = "[''app_grpcserver'']" and parseFloat = numeral_of
      and DefBuckets = "[''0.005'']" and hp = distinct_http_param]
  from a [THEN conjunct2, THEN conjunct1, THEN mp, OF r1] obtain unary stream where
    u: "createInterceptors numeral_of [''0.005''] readme_grpc_config [] =
          Inr (unary, stream, [''app_grpcserver''])"
    and uc: "map concern_of unary = [Recovery, Tracing, Logging, Metrics]"
      "map concern_of stream = [Recovery, Tracing, Logging, Metrics]"
    by (auto simp: readme_grpc_config_def)
  from b [THEN conjunct2, THEN conjunct1, THEN mp, OF r2] obtain unary' stream' where
    u': "createInterceptors numeral_of [''0.005'']
          (readme_grpc_config\<lparr>grpc_trace_enabled := False, grpc_metrics_collect_enabled := False\<rparr>)
          [''app_grpcserver''] = Inr (unary', stream', [''app_grpcserver''])"
    and uc': "map concern_of unary' = [Recovery, Logging]"
    by (auto simp: readme_grpc_config_def)
  from a [THEN conjunct2, THEN conjunct2, THEN conjunct2, THEN mp, OF f] obtain srv where
    s: "NewFxHttpServer numeral_of distinct_http_param = (Inr srv, http_LifeCycle distinct_http_param @ [''httpserver''])"
    and sc: "filter (\<lambda>c. c = Recovery \<or> c = Tracing \<or> c = Logging \<or> c = Metrics)
               (map http_concern_of (srv_middleware srv)) = [Recovery, Tracing, Logging, Metrics]"
    by (auto simp: distinct_http_param_def sample_http_config_def)
  have d: "http_Factory distinct_http_param
             \<lparr>opt_debug = AppDebug (http_Config distinct_http_param), opt_banner = False,
              opt_recovery = True,
              opt_renderer =
                (if http_templates_enabled (http_Config distinct_http_param)
                 then Some (http_templates_path (http_Config distinct_http_param)) else None),
              opt_errorHandler =
                (http_errors_obfuscate (http_Config distinct_http_param) \<or>
                 \<not> AppDebug (http_Config distinct_http_param),
                 http_errors_stack (http_Config distinct_http_param) \<or>
                 AppDebug (http_Config distinct_http_param))\<rparr> =
           Inr \<lparr>srv_debug = False, srv_errorHandler = (True, False), srv_renderer = None,
                srv_premiddleware = [], srv_middleware = [RecoverMiddleware], srv_routes = [],
                srv_errors = []\<rparr>"
    by (simp add: distinct_http_param_def sample_http_config_def DefaultHttpServerFactory_def)
  from a [THEN conjunct2, THEN conjunct2, THEN conjunct1, THEN mp, OF d] s
  have sm: "map http_concern_of (srv_middleware srv) =
              [Recovery, RequestId, Tracing, Logging, Metrics, Registered]"
    by (auto simp: distinct_http_param_def sample_http_config_def)
  from u uc u' uc' s sc sm show ?thesis by simp
qed

section \<open>The metrics settings\<close>

lemma metrics_settings_append:
  "metrics_settings (xs @ ys) = metrics_settings xs @ metrics_settings ys"
  by (induction xs rule: metrics_settings.induct) simp_all







section \<open>The life cycle\<close>

lemma grpc_OnStart_test:
  assumes "IsTestEnv cfg"
  shows "fst (grpc_OnStart w cfg) =
           Serve (Some (NewFxGrpcBufconnListener cfg)) #
           (case grpc_Serve w (Some (NewFxGrpcBufconnListener cfg)) of
              ServeReturned None \<Rightarrow> []
            | ServeReturned (Some err) \<Rightarrow> [LogError ''failed to serve grpc server'']
            | ServePanicked \<Rightarrow> [UnrecoveredPanic])"
  using assms by (simp add: grpc_OnStart_def Let_def)

lemma grpc_OnStart_bound:
  assumes "\<not> IsTestEnv cfg"
    and "net_Listen w (if grpc_port cfg = 0 then grpc_DefaultPort else grpc_port cfg) = None"
  shows "fst (grpc_OnStart w cfg) =
           [NetListen (if grpc_port cfg = 0 then grpc_DefaultPort else grpc_port cfg),
            Serve (Some (Tcp (if grpc_port cfg = 0 then grpc_DefaultPort else grpc_port cfg)))] @
           (case grpc_Serve w (Some (Tcp (if grpc_port cfg = 0 then grpc_DefaultPort else grpc_port cfg))) of
              ServeReturned None \<Rightarrow> []
            | ServeReturned (Some err) \<Rightarrow> [LogError ''failed to serve grpc server'']
            | ServePanicked \<Rightarrow> [UnrecoveredPanic])"
  using assms by (simp add: grpc_OnStart_def Let_def)

lemma grpc_OnStart_unbound:
  assumes "\<not> IsTestEnv cfg"
    and "net_Listen w (if grpc_port cfg = 0 then grpc_DefaultPort else grpc_port cfg) = Some err"
  shows "fst (grpc_OnStart w cfg) =
           [NetListen (if grpc_port cfg = 0 then grpc_DefaultPort else grpc_port cfg),
            LogError ''failed to listen on %d for grpc server'',
            Serve None] @
           (case grpc_Serve w None of
              ServeReturned None \<Rightarrow> []
            | ServeReturned (Some err) \<Rightarrow> [LogError ''failed to serve grpc server'']
            | ServePanicked \<Rightarrow> [UnrecoveredPanic])"
  using assms by (simp add: grpc_OnStart_def Let_def)

lemma serving_on_ending:
  "serving_on (case r of
              ServeReturned None \<Rightarrow> []
            | ServeReturned (Some err) \<Rightarrow> [LogError m]
            | ServePanicked \<Rightarrow> [UnrecoveredPanic]) = None"
  by (simp split: serve_result.splits option.splits)

lemma NetListen_ending:
  "NetListen p \<notin> set (case r of
              ServeReturned None \<Rightarrow> []
            | ServeReturned (Some err) \<Rightarrow> [LogError m]
            | ServePanicked \<Rightarrow> [UnrecoveredPanic])"
  by (simp split: serve_result.splits option.splits)

lemma grpc_OnStart_returns: "snd (grpc_OnStart w cfg) = None"
  by (simp add: grpc_OnStart_def Let_def split_beta)

lemma http_OnStart_returns: "snd (http_OnStart w cfg) = None"
  by (simp add: http_OnStart_def Let_def)

text \<open>
  C7. In test mode the start hook of the gRPC module binds no port and serves on the
  in-memory listener, and the stop hooks of both modules do nothing (no
  \<^verbatim>\<open>GracefulStop\<close>, no \<^verbatim>\<open>Shutdown\<close>). Out of test mode the start hooks bind the
  configured port (50051 and 8080 when it is 0), serve on it when it is bound, and the stop
  hooks drain the server.
\<close>

theorem test_mode_lifecycle:
  fixes cfg :: grpc_config and hcfg :: http_config
  defines "port \<equiv> (if grpc_port cfg = 0 then 50051 else grpc_port cfg)"
  defines "hport \<equiv> (if http_port hcfg = 0 then 8080 else http_port hcfg)"
  shows "(IsTestEnv cfg \<longrightarrow>
            hd (fst (grpc_OnStart w cfg)) = Serve (Some (NewFxGrpcBufconnListener cfg))
          \<and> (\<forall>p. NetListen p \<notin> set (fst (grpc_OnStart w cfg)))
          \<and> serving_on (fst (grpc_OnStart w cfg)) = Some (NewFxGrpcBufconnListener cfg)
          \<and> grpc_OnStop cfg = ([], None))
       \<and> (\<not> IsTestEnv cfg \<longrightarrow>
            hd (fst (grpc_OnStart w cfg)) = NetListen port
          \<and> (net_Listen w port = None \<longrightarrow>
                serving_on (fst (grpc_OnStart w cfg)) = Some (Tcp port))
          \<and> grpc_OnStop cfg = ([GracefulStop], None))
       \<and> (IsTestEnv hcfg \<longrightarrow>
            http_OnStart w hcfg = ([], None) \<and> http_OnStop w hcfg = ([], None))
       \<and> (\<not> IsTestEnv hcfg \<longrightarrow>
            hd (fst (http_OnStart w hcfg)) = NetListen hport
          \<and> (net_Listen w hport = None \<longrightarrow>
                serving_on (fst (http_OnStart w hcfg)) = Some (Tcp hport))
          \<and> http_OnStop w hcfg = ([Shutdown], echo_Shutdown w))"
proof -
  have 1: "IsTestEnv cfg \<longrightarrow>
            hd (fst (grpc_OnStart w cfg)) = Serve (Some (NewFxGrpcBufconnListener cfg))
          \<and> (\<forall>p. NetListen p \<notin> set (fst (grpc_OnStart w cfg)))
          \<and> serving_on (fst (grpc_OnStart w cfg)) = Some (NewFxGrpcBufconnListener cfg)
          \<and> grpc_OnStop cfg = ([], None)"
    by (simp add: grpc_OnStart_test NetListen_ending grpc_OnStop_def)
  have 2: "\<not> IsTestEnv cfg \<longrightarrow> hd (fst (grpc_OnStart w cfg)) = NetListen port"
    by (cases "grpc_port cfg = 0")
      (simp_all add: grpc_OnStart_def Let_def port_def grpc_DefaultPort_def split_beta
        split: option.splits)
  have 3: "\<not> IsTestEnv cfg \<longrightarrow> net_Listen w port = None \<longrightarrow>
             serving_on (fst (grpc_OnStart w cfg)) = Some (Tcp port)"
    using grpc_OnStart_bound [of cfg w]
    by (cases "grpc_port cfg = 0") (simp_all add: port_def grpc_DefaultPort_def serving_on_ending)
  have 4: "\<not> IsTestEnv cfg \<longrightarrow> grpc_OnStop cfg = ([GracefulStop], None)"
    by (simp add: grpc_OnStop_def)
  have 5: "IsTestEnv hcfg \<longrightarrow>
            http_OnStart w hcfg = ([], None) \<and> http_OnStop w hcfg = ([], None)"
    by (simp add: http_OnStart_def http_OnStop_def)
  have 6: "\<not> IsTestEnv hcfg \<longrightarrow>
            hd (fst (http_OnStart w hcfg)) = NetListen hport
          \<and> (net_Listen w hport = None \<longrightarrow>
                serving_on (fst (http_OnStart w hcfg)) = Some (Tcp hport))
          \<and> http_OnStop w hcfg = ([Shutdown], echo_Shutdown w)"
    by (simp add: http_OnStart_def http_OnStop_def echo_Start_def Let_def hport_def
        http_DefaultPort_def split: option.splits)
  from 1 2 3 4 5 6 show ?thesis by blast
qed

theorem test_mode_lifecycle_witness:
  "serving_on (fst (grpc_OnStart world_up (readme_grpc_config\<lparr>IsTestEnv := True\<rparr>))) =
     Some (Bufconn 1048576)
   \<and> grpc_OnStop (readme_grpc_config\<lparr>IsTestEnv := True\<rparr>) = ([], None)
   \<and> http_OnStop world_up (sample_http_config\<lparr>IsTestEnv := True\<rparr>) = ([], None)
   \<and> serving_on (fst (grpc_OnStart world_up readme_grpc_config)) = Some (Tcp 50051)
   \<and> grpc_OnStop readme_grpc_config = ([GracefulStop], None)
   \<and> serving_on (fst (http_OnStart world_up sample_http_config)) = Some (Tcp 8080)
   \<and> http_OnStop world_up sample_http_config = ([Shutdown], None)"
  using test_mode_lifecycle [of "readme_grpc_config\<lparr>IsTestEnv := True\<rparr>" world_up
      "sample_http_config\<lparr>IsTestEnv := True\<rparr>"]
    test_mode_lifecycle [of readme_grpc_config world_up sample_http_config]
  by (simp add: readme_grpc_config_def sample_http_config_def world_up_def
      NewFxGrpcBufconnListener_def Let_def)

text \<open>
  C5, as the code has it. When the port cannot be bound, both start hooks return without
  error and neither server is serving. The gRPC module logs the failure (and then calls
  \<^verbatim>\<open>Serve\<close> with the \<^verbatim>\<open>nil\<close> listener); the HTTP module drops the error that
  \<^verbatim>\<open>Start\<close> returns and logs nothing.
\<close>

theorem bind_failure:
  fixes cfg :: grpc_config and hcfg :: http_config
  assumes "\<not> IsTestEnv cfg" and "\<not> IsTestEnv hcfg"
    and "net_Listen w (if grpc_port cfg = 0 then 50051 else grpc_port cfg) = Some err"
    and "net_Listen w (if http_port hcfg = 0 then 8080 else http_port hcfg) = Some herr"
  shows "snd (grpc_OnStart w cfg) = None
       \<and> ''failed to listen on %d for grpc server'' \<in> set (logged (fst (grpc_OnStart w cfg)))
       \<and> Serve None \<in> set (fst (grpc_OnStart w cfg))
       \<and> serving_on (fst (grpc_OnStart w cfg)) = None
       \<and> state_after (fst (grpc_OnStart w cfg)) = NotStarted
       \<and> snd (http_OnStart w hcfg) = None
       \<and> logged (fst (http_OnStart w hcfg)) = []
       \<and> serving_on (fst (http_OnStart w hcfg)) = None
       \<and> state_after (fst (http_OnStart w hcfg)) = NotStarted"
proof -
  have e: "fst (grpc_OnStart w cfg) =
           [NetListen (if grpc_port cfg = 0 then grpc_DefaultPort else grpc_port cfg),
            LogError ''failed to listen on %d for grpc server'',
            Serve None] @
           (case grpc_Serve w None of
              ServeReturned None \<Rightarrow> []
            | ServeReturned (Some err) \<Rightarrow> [LogError ''failed to serve grpc server'']
            | ServePanicked \<Rightarrow> [UnrecoveredPanic])"
    using grpc_OnStart_unbound [of cfg w err] assms(1,3)
    by (cases "grpc_port cfg = 0") (simp_all add: grpc_DefaultPort_def)
  have g: "''failed to listen on %d for grpc server'' \<in> set (logged (fst (grpc_OnStart w cfg)))
       \<and> Serve None \<in> set (fst (grpc_OnStart w cfg))
       \<and> serving_on (fst (grpc_OnStart w cfg)) = None"
    unfolding e by (simp add: logged_def serving_on_ending)
  have h: "fst (http_OnStart w hcfg) = [NetListen (if http_port hcfg = 0 then 8080 else http_port hcfg)]"
    using assms(2,4)
    by (cases "http_port hcfg = 0")
      (simp_all add: http_OnStart_def echo_Start_def Let_def http_DefaultPort_def)
  have i: "logged (fst (http_OnStart w hcfg)) = [] \<and> serving_on (fst (http_OnStart w hcfg)) = None"
    unfolding h by (simp add: logged_def)
  from g i show ?thesis
    by (simp add: grpc_OnStart_returns http_OnStart_returns state_after_def)
qed

theorem bind_failure_witness:
  "logged (fst (grpc_OnStart world_bind_fails readme_grpc_config)) =
     [''failed to listen on %d for grpc server'', ''failed to serve grpc server'']
   \<and> state_after (fst (grpc_OnStart world_bind_fails readme_grpc_config)) = NotStarted
   \<and> http_OnStart world_bind_fails sample_http_config = ([NetListen 8080], None)"
  using bind_failure [of readme_grpc_config sample_http_config world_bind_fails ListenError ListenError]
  by (simp add: readme_grpc_config_def sample_http_config_def world_bind_fails_def
      grpc_OnStart_def http_OnStart_def echo_Start_def logged_def state_after_def
      grpc_DefaultPort_def http_DefaultPort_def Let_def)

text \<open>
  C5 as it is written fails on the HTTP module: the port cannot be bound, and nothing is
  logged.
\<close>

theorem bind_failure_not_logged:
  "\<not> IsTestEnv sample_http_config
   \<and> net_Listen world_bind_fails 8080 = Some ListenError
   \<and> fst (http_OnStart world_bind_fails sample_http_config) = [NetListen 8080]
   \<and> logged (fst (http_OnStart world_bind_fails sample_http_config)) = []"
  by (simp add: sample_http_config_def world_bind_fails_def http_OnStart_def echo_Start_def
      logged_def http_DefaultPort_def Let_def)

section \<open>Registering the collector\<close>

text \<open>
  C9, as the code has it. With metrics enabled, \<^verbatim>\<open>createInterceptors\<close> registers its
  collector with \<^verbatim>\<open>MustRegister\<close> and no guard. When the name of the collector is a
  valid metric name and the registry has no collector of that name, the build succeeds and
  the registry then has exactly one. When the registry has one already, as after an
  earlier build, or when the name is not a valid metric name, \<^verbatim>\<open>MustRegister\<close>
  panics: the build faults. With metrics disabled the registry is left as it is.
\<close>

theorem collector_registration:
  fixes cfg :: grpc_config
  defines "name \<equiv> grpcSrvMetricsSubsystem cfg"
  shows "(grpc_metrics_collect_enabled cfg \<and> valid_metric_name name \<and> name \<notin> set registry \<longrightarrow>
            (\<exists>unary stream.
               createInterceptors parseFloat DefBuckets cfg registry =
                 Inr (unary, stream, registry @ [name]))
            \<and> count_list (registry @ [name]) name = 1)
       \<and> (grpc_metrics_collect_enabled cfg \<and> valid_metric_name name \<and> name \<in> set registry \<longrightarrow>
            createInterceptors parseFloat DefBuckets cfg registry =
              Inl (Panicked (AlreadyRegisteredError name)))
       \<and> (grpc_metrics_collect_enabled cfg \<and> \<not> valid_metric_name name \<longrightarrow>
            createInterceptors parseFloat DefBuckets cfg registry =
              Inl (Panicked (InvalidMetricName name)))
       \<and> (\<not> grpc_metrics_collect_enabled cfg \<longrightarrow>
            (\<exists>unary stream.
               createInterceptors parseFloat DefBuckets cfg registry =
                 Inr (unary, stream, registry)))"
proof -
  have 1: "grpc_metrics_collect_enabled cfg \<and> valid_metric_name name \<and> name \<notin> set registry \<longrightarrow>
            (\<exists>unary stream.
               createInterceptors parseFloat DefBuckets cfg registry =
                 Inr (unary, stream, registry @ [name]))"
    by (simp add: createInterceptors_def MustRegister_def Let_def name_def)
  have 2: "name \<notin> set registry \<longrightarrow> count_list (registry @ [name]) name = 1"
    by (simp add: count_list_0_iff)
  have 3: "grpc_metrics_collect_enabled cfg \<and> valid_metric_name name \<and> name \<in> set registry \<longrightarrow>
            createInterceptors parseFloat DefBuckets cfg registry =
              Inl (Panicked (AlreadyRegisteredError name))"
    by (simp add: createInterceptors_Inl MustRegister_def name_def)
  have 4: "grpc_metrics_collect_enabled cfg \<and> \<not> valid_metric_name name \<longrightarrow>
            createInterceptors parseFloat DefBuckets cfg registry =
              Inl (Panicked (InvalidMetricName name))"
    by (simp add: createInterceptors_Inl MustRegister_def name_def)
  have 5: "\<not> grpc_metrics_collect_enabled cfg \<longrightarrow>
            (\<exists>unary stream.
               createInterceptors parseFloat DefBuckets cfg registry =
                 Inr (unary, stream, registry))"
    by (simp add: createInterceptors_def Let_def)
  from 1 2 3 4 5 show ?thesis by blast
qed

theorem collector_registration_witness:
  "grpcSrvMetricsSubsystem readme_grpc_config = ''app_grpcserver''
   \<and> valid_metric_name ''app_grpcserver''
   \<and> (\<exists>unary stream.
        createInterceptors numeral_of [''0.005''] readme_grpc_config [] =
          Inr (unary, stream, [''app_grpcserver'']))
   \<and> createInterceptors numeral_of [''0.005''] readme_grpc_config [''app_grpcserver''] =
       Inl (Panicked (AlreadyRegisteredError ''app_grpcserver''))
   \<and> grpcSrvMetricsSubsystem
       (readme_grpc_config\<lparr>AppName := ''my.app'', grpc_metrics_collect_namespace := []\<rparr>) =
      ''my.app_grpcserver''
   \<and> createInterceptors numeral_of [''0.005'']
       (readme_grpc_config\<lparr>AppName := ''my.app'', grpc_metrics_collect_namespace := []\<rparr>) [] =
       Inl (Panicked (InvalidMetricName ''my.app_grpcserver''))"
proof -
  have n: "grpcSrvMetricsSubsystem readme_grpc_config = ''app_grpcserver''"
    by (simp add: grpcSrvMetricsSubsystem_def readme_grpc_config_def ReplaceAll_def Let_def)
  have n': "grpcSrvMetricsSubsystem
       (readme_grpc_config\<lparr>AppName := ''my.app'', grpc_metrics_collect_namespace := []\<rparr>) =
      ''my.app_grpcserver''"
    by (simp add: grpcSrvMetricsSubsystem_def readme_grpc_config_def ReplaceAll_def
        grpc_ModuleName_def Let_def)
  have e: "grpc_metrics_collect_enabled readme_grpc_config"
    "grpc_metrics_collect_enabled
       (readme_grpc_config\<lparr>AppName := ''my.app'', grpc_metrics_collect_namespace := []\<rparr>)"
    by (simp_all add: readme_grpc_config_def)
  have v: "valid_metric_name ''app_grpcserver''" "\<not> valid_metric_name ''my.app_grpcserver''"
    by (simp_all add: metric_name_char_def metric_name_start_def)
  show ?thesis
    using collector_registration [of readme_grpc_config "[]" numeral_of "[''0.005'']"]
      collector_registration [of readme_grpc_config "[''app_grpcserver'']" numeral_of "[''0.005'']"]
      collector_registration [of "readme_grpc_config\<lparr>AppName := ''my.app'',
        grpc_metrics_collect_namespace := []\<rparr>" "[]" numeral_of "[''0.005'']"]
      n n' e v
    by (simp add: metric_name_char_def metric_name_start_def)
qed

text \<open>
  C9 as it is written fails: a second build with the registry the first build left
  faults.
\<close>

theorem repeated_build_faults:
  "createInterceptors numeral_of [''0.005''] readme_grpc_config [] =
     Inr ([RecoveryInterceptor True,
           OtelInterceptor (filters_None [FullMethodName ''/test.Service/Bidi'']),
           LoggerInterceptor [''x-foo'' \<mapsto> ''foo'', ''x-bar'' \<mapsto> ''bar''] [''/test.Service/Unary''],
           MetricsInterceptor ''app_grpcserver'' [''0.1'', ''1'', ''10'']],
          [RecoveryInterceptor True,
           OtelInterceptor (filters_None [FullMethodName ''/test.Service/Bidi'']),
           LoggerInterceptor [''x-foo'' \<mapsto> ''foo'', ''x-bar'' \<mapsto> ''bar''] [''/test.Service/Unary''],
           MetricsInterceptor ''app_grpcserver'' [''0.1'', ''1'', ''10'']],
          [''app_grpcserver''])
   \<and> createInterceptors numeral_of [''0.005''] readme_grpc_config [''app_grpcserver''] =
       Inl (Panicked (AlreadyRegisteredError ''app_grpcserver''))"
  by (simp add: createInterceptors_def readme_grpc_config_def MustRegister_def
      grpcSrvMetricsSubsystem_def grpcSrvMetricsBuckets_def parseBuckets_def ReplaceAll_def
      grpc_ModuleName_def numeral_of_def metric_name_char_def metric_name_start_def Let_def)

section \<open>Calls under the chain\<close>

lemma intercept_Otel: "intercept (OtelInterceptor flt) fullMethod ended = ended"
  by (cases ended) simp

lemma run_chain_built:
  fixes r l m :: "('f::linorder) interceptor"
  shows "run_chain
     ([r] @ (if trace then [OtelInterceptor flt] else []) @ [l] @ (if metrics then [m] else []))
     fullMethod handled =
   intercept r fullMethod
     (intercept l fullMethod
        (if metrics then intercept m fullMethod (handled, []) else (handled, [])))"
  by (simp add: run_chain_def intercept_Otel)

lemma run_chain_excluded:
  assumes "IsExcluded fullMethod exclusions"
  shows "run_chain
     ([RecoveryInterceptor debug] @ (if trace then [OtelInterceptor flt] else []) @
      [LoggerInterceptor metadata exclusions] @
      (if metrics then [MetricsInterceptor subsystem buckets] else []))
     fullMethod handled =
   (if metrics \<and> histogram_panics buckets
    then (Recovered (Handle debug (case handled of Panic f \<Rightarrow> f | _ \<Rightarrow> histogram_fault)),
          [\<lparr>record_method = fullMethod, record_error = Some RecoveredPanic\<rparr>])
    else (case handled of
            Done None \<Rightarrow> (Done None, [])
          | Done (Some err) \<Rightarrow>
              (Done (Some err), [\<lparr>record_method = fullMethod, record_error = Some err\<rparr>])
          | Panic f \<Rightarrow>
              (Recovered (Handle debug f),
               [\<lparr>record_method = fullMethod, record_error = Some RecoveredPanic\<rparr>])
          | Recovered r \<Rightarrow>
              (Recovered r, [\<lparr>record_method = fullMethod, record_error = Some RecoveredPanic\<rparr>])))"
  using assms unfolding run_chain_built
  by (cases handled) (auto simp: loggerIntercept_def split: option.splits)


text \<open>
  C3. When the registration of the collector does not panic, \<^verbatim>\<open>createInterceptors\<close>
  returns chains under which a call whose name is in the configured logging exclusions gives
  no log record when it succeeds and exactly one when it fails, whether its handler
  returned an error or a panic was recovered. Where the metrics interceptor does not panic,
  a call whose handler returns an error ends with that error and with one record of it.
\<close>

theorem excluded_call_logging:
  fixes cfg :: grpc_config and parseFloat :: "string \<Rightarrow> ('f::linorder) option"
  assumes "fullMethod \<in> set (grpc_log_exclude cfg)"
    and "(if grpc_metrics_collect_enabled cfg
          then MustRegister registry (grpcSrvMetricsSubsystem cfg) else Inr registry) =
         Inr registry'"
  shows "\<exists>unary stream.
           createInterceptors parseFloat DefBuckets cfg registry = Inr (unary, stream, registry')
         \<and> (fst (run_chain unary fullMethod handled) = Done None \<longrightarrow>
              snd (run_chain unary fullMethod handled) = [])
         \<and> (fst (run_chain unary fullMethod handled) \<noteq> Done None \<longrightarrow>
              length (snd (run_chain unary fullMethod handled)) = 1)
         \<and> (fst (run_chain stream fullMethod handled) = Done None \<longrightarrow>
              snd (run_chain stream fullMethod handled) = [])
         \<and> (fst (run_chain stream fullMethod handled) \<noteq> Done None \<longrightarrow>
              length (snd (run_chain stream fullMethod handled)) = 1)
         \<and> (\<not> (grpc_metrics_collect_enabled cfg \<and>
                 histogram_panics (grpcSrvMetricsBuckets parseFloat DefBuckets cfg)) \<longrightarrow>
              run_chain unary fullMethod (Done (Some err)) =
                (Done (Some err), [\<lparr>record_method = fullMethod, record_error = Some err\<rparr>])
            \<and> run_chain unary fullMethod (Done None) = (Done None, []))"
proof -
  have x: "IsExcluded fullMethod (grpc_log_exclude cfg)"
    using assms(1) by (simp add: IsExcluded_set)
  note r = run_chain_excluded [OF x]
  let ?chain =
    "[RecoveryInterceptor (AppDebug cfg)] @
     (if grpc_trace_enabled cfg
      then [OtelInterceptor (filters_None (map FullMethodName (grpc_trace_exclude cfg)))]
      else []) @
     [LoggerInterceptor (grpc_log_metadata cfg) (grpc_log_exclude cfg)] @
     (if grpc_metrics_collect_enabled cfg
      then [MetricsInterceptor (grpcSrvMetricsSubsystem cfg)
              (grpcSrvMetricsBuckets parseFloat DefBuckets cfg)]
      else [])"
  have c: "createInterceptors parseFloat DefBuckets cfg registry = Inr (?chain, ?chain, registry')"
    by (rule createInterceptors_registered [OF assms(2)])
  have p: "(fst (run_chain ?chain fullMethod handled) = Done None \<longrightarrow>
              snd (run_chain ?chain fullMethod handled) = [])
         \<and> (fst (run_chain ?chain fullMethod handled) \<noteq> Done None \<longrightarrow>
              length (snd (run_chain ?chain fullMethod handled)) = 1)"
    unfolding r by (cases handled) (auto split: option.splits)
  have q: "\<not> (grpc_metrics_collect_enabled cfg \<and>
                 histogram_panics (grpcSrvMetricsBuckets parseFloat DefBuckets cfg)) \<longrightarrow>
              run_chain ?chain fullMethod (Done (Some err)) =
                (Done (Some err), [\<lparr>record_method = fullMethod, record_error = Some err\<rparr>])
            \<and> run_chain ?chain fullMethod (Done None) = (Done None, [])"
    unfolding r by simp
  show ?thesis
    by (rule exI [of _ ?chain], rule exI [of _ ?chain]) (use c p q in blast)
qed

theorem excluded_call_logging_witness:
  "''/test.Service/Unary'' \<in> set (grpc_log_exclude readme_grpc_config)
   \<and> run_chain (fst (projr (createInterceptors tenths_of [5] readme_grpc_config [])))
       ''/test.Service/Unary'' (Done (Some HandlerError)) =
      (Done (Some HandlerError),
       [\<lparr>record_method = ''/test.Service/Unary'', record_error = Some HandlerError\<rparr>])
   \<and> run_chain (fst (projr (createInterceptors tenths_of [5] readme_grpc_config [])))
       ''/test.Service/Unary'' (Done None) = (Done None, [])
   \<and> length (snd (run_chain (fst (projr (createInterceptors tenths_of [5] readme_grpc_config [])))
       ''/test.Service/Unary'' (Panic sample_fault))) = 1"
proof -
  have m: "''/test.Service/Unary'' \<in> set (grpc_log_exclude readme_grpc_config)"
    by (simp add: readme_grpc_config_def)
  have b: "grpcSrvMetricsBuckets tenths_of [5] readme_grpc_config = [1, 10, 100]"
    by (simp add: grpcSrvMetricsBuckets_def parseBuckets_def readme_grpc_config_def
        ReplaceAll_def tenths_of_def Let_def)
  have h: "\<not> (grpc_metrics_collect_enabled readme_grpc_config \<and>
             histogram_panics (grpcSrvMetricsBuckets tenths_of [5] readme_grpc_config))"
    unfolding b by (simp add: histogram_panics_def)
  from excluded_call_logging [OF m readme_registered, of tenths_of "[5]" "Panic sample_fault"
      HandlerError]
  obtain unary stream where
    u: "createInterceptors tenths_of [5] readme_grpc_config [] =
          Inr (unary, stream, [''app_grpcserver''])"
    and p: "fst (run_chain unary ''/test.Service/Unary'' (Panic sample_fault)) \<noteq> Done None \<longrightarrow>
              length (snd (run_chain unary ''/test.Service/Unary'' (Panic sample_fault))) = 1"
    and e: "\<not> (grpc_metrics_collect_enabled readme_grpc_config \<and>
                 histogram_panics (grpcSrvMetricsBuckets tenths_of [5] readme_grpc_config)) \<longrightarrow>
              run_chain unary ''/test.Service/Unary'' (Done (Some HandlerError)) =
                (Done (Some HandlerError),
                 [\<lparr>record_method = ''/test.Service/Unary'', record_error = Some HandlerError\<rparr>])
            \<and> run_chain unary ''/test.Service/Unary'' (Done None) = (Done None, [])"
    by blast
  have q: "fst (run_chain unary ''/test.Service/Unary'' (Panic sample_fault)) \<noteq> Done None"
    using createInterceptors_registered [OF readme_registered, of tenths_of "[5]"] u
    by (auto simp: run_chain_def readme_grpc_config_def)
  from u p q e h m show ?thesis by simp
qed




section \<open>Faults\<close>

text \<open>
  C6, as the code has it. Under the chains of the gRPC module a fault of the handler becomes
  an internal error result, with the details of the fault exactly when the application is
  in debug mode, and generic otherwise. The HTTP module builds its error handler from two
  options as well: the message is generic exactly when \<^verbatim>\<open>errors.obfuscate\<close> is set
  or debug mode is off, and the stack is added exactly when \<^verbatim>\<open>errors.stack\<close> is set
  or debug mode is on; with neither option set the details are there exactly in debug mode.
\<close>

theorem fault_recovery:
  assumes "createInterceptors parseFloat DefBuckets cfg registry = Inr (unary, stream, registry')"
    and "http_Factory p = DefaultHttpServerFactory"
    and "fst (NewFxHttpServer parseFloat p) = Inr httpServer"
  shows "recovered unary f = Some (Handle (AppDebug cfg) f)
       \<and> recovered stream f = Some (Handle (AppDebug cfg) f)
       \<and> result_code (Handle (AppDebug cfg) f) = Internal
       \<and> has_details (Handle (AppDebug cfg) f) f = AppDebug cfg
       \<and> is_generic (Handle (AppDebug cfg) f) = (\<not> AppDebug cfg)
       \<and> result_code (http_recovered httpServer f) = Internal
       \<and> result_message (http_recovered httpServer f) =
           (if http_errors_obfuscate (http_Config p) \<or> \<not> AppDebug (http_Config p)
            then None else Some (fault_message f))
       \<and> result_stack (http_recovered httpServer f) =
           (if http_errors_stack (http_Config p) \<or> AppDebug (http_Config p)
            then Some (fault_stack f) else None)
       \<and> (\<not> http_errors_obfuscate (http_Config p) \<and> \<not> http_errors_stack (http_Config p) \<longrightarrow>
            has_details (http_recovered httpServer f) f = AppDebug (http_Config p)
          \<and> is_generic (http_recovered httpServer f) = (\<not> AppDebug (http_Config p)))"
proof -
  note u = createInterceptors_Inr [OF assms(1)]
  have 1: "recovered unary f = Some (Handle (AppDebug cfg) f)"
    unfolding u(1) by simp
  have 2: "has_details (Handle (AppDebug cfg) f) f = AppDebug cfg"
    "is_generic (Handle (AppDebug cfg) f) = (\<not> AppDebug cfg)"
    "result_code (Handle (AppDebug cfg) f) = Internal"
    by (simp_all add: has_details_def is_generic_def Handle_def)
  have h: "srv_errorHandler httpServer =
           (http_errors_obfuscate (http_Config p) \<or> \<not> AppDebug (http_Config p),
            http_errors_stack (http_Config p) \<or> AppDebug (http_Config p))"
    using NewFxHttpServer_default(2) [OF assms(2), of parseFloat] assms(3) by simp
  have 3: "result_code (http_recovered httpServer f) = Internal"
    "result_message (http_recovered httpServer f) =
           (if http_errors_obfuscate (http_Config p) \<or> \<not> AppDebug (http_Config p)
            then None else Some (fault_message f))"
    "result_stack (http_recovered httpServer f) =
           (if http_errors_stack (http_Config p) \<or> AppDebug (http_Config p)
            then Some (fault_stack f) else None)"
    by (simp_all add: http_recovered_def JsonErrorHandler_def h)
  have 4: "\<not> http_errors_obfuscate (http_Config p) \<and> \<not> http_errors_stack (http_Config p) \<longrightarrow>
            has_details (http_recovered httpServer f) f = AppDebug (http_Config p)
          \<and> is_generic (http_recovered httpServer f) = (\<not> AppDebug (http_Config p))"
    by (simp add: has_details_def is_generic_def 3)
  from 1 2 3 4 u(2) show ?thesis by simp
qed

lemma sample_http_server:
  "fst (NewFxHttpServer numeral_of (sample_http_param sample_http_config)) =
     Inr (withRegisteredResources
            (withDefaultMiddlewares numeral_of
               \<lparr>srv_debug = False, srv_errorHandler = (True, False), srv_renderer = None,
                srv_premiddleware = [], srv_middleware = [RecoverMiddleware], srv_routes = [],
                srv_errors = []\<rparr>
               sample_http_config)
            \<lparr>registeredHandlers = [], handlersWithError = [],
             resolvedHandlersGroups = ([], None), resolvedMiddlewares = ([], None)\<rparr>)"
  by (simp add: NewFxHttpServer_def sample_http_param_def sample_http_config_def
      DefaultHttpServerFactory_def Let_def)

theorem fault_recovery_witness:
  "recovered
     [RecoveryInterceptor True,
      OtelInterceptor (filters_None [FullMethodName ''/test.Service/Bidi'']),
      LoggerInterceptor [''x-foo'' \<mapsto> ''foo'', ''x-bar'' \<mapsto> ''bar''] [''/test.Service/Unary''],
      MetricsInterceptor ''app_grpcserver'' [''0.1'', ''1'', ''10'']]
     sample_fault =
     Some \<lparr>result_code = Internal, result_message = Some ''nil pointer dereference'',
           result_stack = Some ''goroutine 1 [running]''\<rparr>
   \<and> is_generic
       (http_recovered
          (withRegisteredResources
            (withDefaultMiddlewares numeral_of
               \<lparr>srv_debug = False, srv_errorHandler = (True, False), srv_renderer = None,
                srv_premiddleware = [], srv_middleware = [RecoverMiddleware], srv_routes = [],
                srv_errors = []\<rparr>
               sample_http_config)
            \<lparr>registeredHandlers = [], handlersWithError = [],
             resolvedHandlersGroups = ([], None), resolvedMiddlewares = ([], None)\<rparr>)
          sample_fault)"
proof -
  have f: "http_Factory (sample_http_param sample_http_config) = DefaultHttpServerFactory"
    by (simp add: sample_http_param_def)
  show ?thesis
    using fault_recovery [OF readme_grpc_chain f sample_http_server, of sample_fault]
    by (simp add: readme_grpc_config_def sample_http_param_def sample_http_config_def
        sample_fault_def Handle_def is_generic_def)
qed

text \<open>
  C6 as it is written fails on the HTTP module: with \<^verbatim>\<open>errors.stack\<close> set the stack of
  the fault is in the payload though debug mode is off, and with
  \<^verbatim>\<open>errors.obfuscate\<close> set the message is generic though debug mode is on.
\<close>

theorem details_without_debug:
  "\<not> AppDebug (sample_http_config\<lparr>http_errors_stack := True\<rparr>)
   \<and> result_stack
       (http_recovered
          (projr (fst (NewFxHttpServer numeral_of
             (sample_http_param (sample_http_config\<lparr>http_errors_stack := True\<rparr>)))))
          sample_fault) = Some ''goroutine 1 [running]''
   \<and> AppDebug (sample_http_config\<lparr>AppDebug := True, http_errors_obfuscate := True\<rparr>)
   \<and> result_message
       (http_recovered
          (projr (fst (NewFxHttpServer numeral_of
             (sample_http_param
                (sample_http_config\<lparr>AppDebug := True, http_errors_obfuscate := True\<rparr>)))))
          sample_fault) = None"
  by (simp add: NewFxHttpServer_default(2) sample_http_param_def sample_http_config_def
      http_recovered_def JsonErrorHandler_def sample_fault_def)

section \<open>Duplicate registrations\<close>

lemma Resolve_cases:
  "Resolve identity withError registrations =
     (if distinct (map identity registrations) then (registrations, None)
      else (withError, Some DuplicateRegistration))"
  by (simp add: Resolve_def)

lemma registerServices_all:
  assumes "list_all SatisfiesHandlerType services"
    and "distinct (map Description services)"
    and "set (map Description services) \<inter> set (grpc_services grpcServer) = {}"
  shows "registerServices grpcServer services =
           Inr (grpcServer\<lparr>grpc_services := grpc_services grpcServer @ map Description services\<rparr>)"
  using assms
proof (induction services arbitrary: grpcServer)
  case Nil
  then show ?case by simp
next
  case (Cons service services)
  let ?next = "grpcServer\<lparr>grpc_services := grpc_services grpcServer @ [Description service]\<rparr>"
  have r: "RegisterService grpcServer service = Inr ?next"
    using Cons.prems by (simp add: RegisterService_def)
  have "registerServices ?next services =
          Inr (?next\<lparr>grpc_services := grpc_services ?next @ map Description services\<rparr>)"
    using Cons.prems by (intro Cons.IH) auto
  with r show ?case by simp
qed

lemma NewFxGrpcServer_resolved:
  assumes "createInterceptors parseFloat DefBuckets (grpc_Config p) (grpc_MetricsRegistry p) =
             Inr (unary, stream, registry')"
    and "grpc_Factory p
           \<lparr>grpc_unary = unary, grpc_stream = stream,
            grpc_reflection = grpc_reflection_enabled (grpc_Config p),
            grpc_services = []\<rparr> = Inr created"
    and "(if grpc_healthcheck_enabled (grpc_Config p)
          then RegisterService created GrpcHealthCheckService else Inr created) = Inr grpcServer"
  shows "NewFxGrpcServer parseFloat DefBuckets p =
           (case snd (ResolveGrpcServerServices (grpc_Registry p)) of
              Some err \<Rightarrow> (Inl (Returned err), grpc_LifeCycle p, registry')
            | None \<Rightarrow>
                (case registerServices grpcServer (fst (ResolveGrpcServerServices (grpc_Registry p))) of
                   Inl e \<Rightarrow> (Inl e, grpc_LifeCycle p, registry')
                 | Inr srv \<Rightarrow> (Inr srv, grpc_LifeCycle p @ [grpc_ModuleName], registry')))"
  using assms
  by (auto simp: NewFxGrpcServer_def Let_def split_beta split: if_splits option.splits sum.splits)

lemma foldl_Add_errors:
  "srv_errors (foldl (\<lambda>srv h. Add srv (m h) (pa h) (mw h)) httpServer hs) = srv_errors httpServer"
  by (induction hs arbitrary: httpServer) (simp_all add: Add_def)

lemma foldl_Add_routes:
  "srv_routes (foldl (\<lambda>srv h. Add srv (m h) (pa h) (mw h)) httpServer hs) =
     srv_routes httpServer @ map (\<lambda>h. (m h, pa h, mw h)) hs"
  by (induction hs arbitrary: httpServer) (simp_all add: Add_def)

lemma withRegisteredResources_handlers:
  "srv_errors (withRegisteredResources httpServer registry) =
     srv_errors (withRegisteredResources httpServer (registry\<lparr>registeredHandlers := []\<rparr>)) @
     (case snd (ResolveHandlers registry) of
        None \<Rightarrow> []
      | Some err \<Rightarrow> [(''cannot resolve router handlers: %v'', err)])"
  "srv_routes (withRegisteredResources httpServer registry) =
     srv_routes (withRegisteredResources httpServer (registry\<lparr>registeredHandlers := []\<rparr>)) @
     map (\<lambda>h. (ToUpper (Method h), Path h, Middlewares h)) (fst (ResolveHandlers registry))"
  by (simp_all add: withRegisteredResources_def ResolveHandlers_def Resolve_def Let_def split_beta
      foldl_Add_errors foldl_Add_routes Errorf_def)

text \<open>
  C4, as the code has it. Resolution fails with the duplicate registration error when two
  registrations have the same identity, and returns the registrations as they are, in
  order, when the identities are distinct. When the interceptors and the server were built,
  \<^verbatim>\<open>NewFxGrpcServer\<close> returns the error of a failed resolution and appends no hook;
  with distinct services that \<^verbatim>\<open>RegisterService\<close> accepts it registers them all, in
  order, and appends its hook. \<^verbatim>\<open>NewFxHttpServer\<close> writes the error of a failed
  resolution of the handlers to the log of the server and goes on: it adds the handlers
  that came back with the error, returns the server and appends its hook; with distinct
  handlers it adds them all, in order.
\<close>

theorem duplicate_registration:
  fixes p :: "'f FxGrpcServerParam" and hp :: "'f FxHttpServerParam"
  defines "services \<equiv> registeredServices (grpc_Registry p)"
  defines "handlers \<equiv> registeredHandlers (http_Registry hp)"
  defines "hp0 \<equiv> hp\<lparr>http_Registry := (http_Registry hp)\<lparr>registeredHandlers := []\<rparr>\<rparr>"
  assumes "createInterceptors parseFloat DefBuckets (grpc_Config p) (grpc_MetricsRegistry p) =
             Inr (unary, stream, registry')"
    and "grpc_Factory p
           \<lparr>grpc_unary = unary, grpc_stream = stream,
            grpc_reflection = grpc_reflection_enabled (grpc_Config p),
            grpc_services = []\<rparr> = Inr created"
    and "(if grpc_healthcheck_enabled (grpc_Config p)
          then RegisterService created GrpcHealthCheckService else Inr created) = Inr grpcServer"
    and "http_Factory hp
             \<lparr>opt_debug = AppDebug (http_Config hp), opt_banner = False, opt_recovery = True,
              opt_renderer =
                (if http_templates_enabled (http_Config hp)
                 then Some (http_templates_path (http_Config hp)) else None),
              opt_errorHandler =
                (http_errors_obfuscate (http_Config hp) \<or> \<not> AppDebug (http_Config hp),
                 http_errors_stack (http_Config hp) \<or> AppDebug (http_Config hp))\<rparr> = Inr httpServer"
  shows "(\<not> distinct (map Description services) \<longrightarrow>
            snd (ResolveGrpcServerServices (grpc_Registry p)) = Some DuplicateRegistration
          \<and> NewFxGrpcServer parseFloat DefBuckets p =
              (Inl (Returned DuplicateRegistration), grpc_LifeCycle p, registry'))
       \<and> (distinct (map Description services) \<longrightarrow>
            ResolveGrpcServerServices (grpc_Registry p) = (services, None)
          \<and> (list_all SatisfiesHandlerType services \<and>
              set (map Description services) \<inter> set (grpc_services grpcServer) = {} \<longrightarrow>
              NewFxGrpcServer parseFloat DefBuckets p =
                (Inr (grpcServer\<lparr>grpc_services :=
                        grpc_services grpcServer @ map Description services\<rparr>),
                 grpc_LifeCycle p @ [''grpcserver''], registry')))
       \<and> (\<not> distinct (map (\<lambda>h. (Method h, Path h)) handlers) \<longrightarrow>
            snd (ResolveHandlers (http_Registry hp)) = Some DuplicateRegistration)
       \<and> (distinct (map (\<lambda>h. (Method h, Path h)) handlers) \<longrightarrow>
            ResolveHandlers (http_Registry hp) = (handlers, None))
       \<and> (\<exists>srv srv0.
              NewFxHttpServer parseFloat hp = (Inr srv, http_LifeCycle hp @ [''httpserver''])
            \<and> NewFxHttpServer parseFloat hp0 = (Inr srv0, http_LifeCycle hp @ [''httpserver''])
            \<and> srv_errors srv =
                srv_errors srv0 @
                (case snd (ResolveHandlers (http_Registry hp)) of
                   None \<Rightarrow> []
                 | Some err \<Rightarrow> [(''cannot resolve router handlers: %v'', err)])
            \<and> srv_routes srv =
                srv_routes srv0 @
                map (\<lambda>h. (ToUpper (Method h), Path h, Middlewares h))
                  (fst (ResolveHandlers (http_Registry hp))))"
proof -
  note b = NewFxGrpcServer_resolved [OF assms(4,5,6)]
  have g: "ResolveGrpcServerServices (grpc_Registry p) =
             (if distinct (map Description services) then (services, None)
              else (servicesWithError (grpc_Registry p), Some DuplicateRegistration))"
    by (simp add: ResolveGrpcServerServices_def Resolve_cases services_def)
  have 1: "\<not> distinct (map Description services) \<longrightarrow>
            snd (ResolveGrpcServerServices (grpc_Registry p)) = Some DuplicateRegistration
          \<and> NewFxGrpcServer parseFloat DefBuckets p =
              (Inl (Returned DuplicateRegistration), grpc_LifeCycle p, registry')"
    by (simp add: b g)
  have 2: "distinct (map Description services) \<longrightarrow>
            ResolveGrpcServerServices (grpc_Registry p) = (services, None)
          \<and> (list_all SatisfiesHandlerType services \<and>
              set (map Description services) \<inter> set (grpc_services grpcServer) = {} \<longrightarrow>
              NewFxGrpcServer parseFloat DefBuckets p =
                (Inr (grpcServer\<lparr>grpc_services :=
                        grpc_services grpcServer @ map Description services\<rparr>),
                 grpc_LifeCycle p @ [''grpcserver''], registry'))"
    using registerServices_all [of services grpcServer]
    by (simp add: b g grpc_ModuleName_def)
  have h: "ResolveHandlers (http_Registry hp) =
             (if distinct (map (\<lambda>h. (Method h, Path h)) handlers) then (handlers, None)
              else (handlersWithError (http_Registry hp), Some DuplicateRegistration))"
    by (simp add: ResolveHandlers_def Resolve_cases handlers_def)
  have c0: "http_Config hp0 = http_Config hp" "http_Factory hp0 = http_Factory hp"
    "http_LifeCycle hp0 = http_LifeCycle hp"
    "http_Registry hp0 = (http_Registry hp)\<lparr>registeredHandlers := []\<rparr>"
    by (simp_all add: hp0_def)
  have f0:
    "http_Factory hp0
       \<lparr>opt_debug = AppDebug (http_Config hp0), opt_banner = False, opt_recovery = True,
        opt_renderer =
          (if http_templates_enabled (http_Config hp0)
           then Some (http_templates_path (http_Config hp0)) else None),
        opt_errorHandler =
          (http_errors_obfuscate (http_Config hp0) \<or> \<not> AppDebug (http_Config hp0),
           http_errors_stack (http_Config hp0) \<or> AppDebug (http_Config hp0))\<rparr> = Inr httpServer"
    unfolding c0 by (rule assms(7))
  let ?s = "withDefaultMiddlewares parseFloat httpServer (http_Config hp)"
  have n: "NewFxHttpServer parseFloat hp =
             (Inr (withRegisteredResources ?s (http_Registry hp)),
              http_LifeCycle hp @ [''httpserver''])"
    using NewFxHttpServer_Inr [OF assms(7), of parseFloat] by (simp add: http_ModuleName_def)
  have n0: "NewFxHttpServer parseFloat hp0 =
             (Inr (withRegisteredResources ?s ((http_Registry hp)\<lparr>registeredHandlers := []\<rparr>)),
              http_LifeCycle hp @ [''httpserver''])"
    using NewFxHttpServer_Inr [OF f0, of parseFloat] by (simp add: http_ModuleName_def c0)
  note w = withRegisteredResources_handlers [of ?s "http_Registry hp"]
  have 3: "\<exists>srv srv0.
              NewFxHttpServer parseFloat hp = (Inr srv, http_LifeCycle hp @ [''httpserver''])
            \<and> NewFxHttpServer parseFloat hp0 = (Inr srv0, http_LifeCycle hp @ [''httpserver''])
            \<and> srv_errors srv =
                srv_errors srv0 @
                (case snd (ResolveHandlers (http_Registry hp)) of
                   None \<Rightarrow> []
                 | Some err \<Rightarrow> [(''cannot resolve router handlers: %v'', err)])
            \<and> srv_routes srv =
                srv_routes srv0 @
                map (\<lambda>h. (ToUpper (Method h), Path h, Middlewares h))
                  (fst (ResolveHandlers (http_Registry hp)))"
    using n n0 w by blast
  have 4: "(\<not> distinct (map (\<lambda>h. (Method h, Path h)) handlers) \<longrightarrow>
            snd (ResolveHandlers (http_Registry hp)) = Some DuplicateRegistration)
       \<and> (distinct (map (\<lambda>h. (Method h, Path h)) handlers) \<longrightarrow>
            ResolveHandlers (http_Registry hp) = (handlers, None))"
    by (simp add: h)
  from 1 2 3 4 show ?thesis by blast
qed

lemma ToUpper_methods: "ToUpper ''GET'' = ''GET''" "ToUpper ''POST'' = ''POST''"
  by (simp_all add: ToUpper_def)

theorem duplicate_registration_witness:
  "NewFxGrpcServer numeral_of [''0.005''] duplicate_grpc_param =
     (Inl (Returned DuplicateRegistration), [], [''app_grpcserver''])
   \<and> grpc_services (projr (fst (NewFxGrpcServer numeral_of [''0.005''] distinct_grpc_param))) =
       [''grpc.health.v1.Health'', ''test.Service'', ''test.Other'']
   \<and> fst (snd (NewFxGrpcServer numeral_of [''0.005''] distinct_grpc_param)) = [''grpcserver'']
   \<and> srv_routes (projr (fst (NewFxHttpServer numeral_of distinct_http_param))) =
       [(''GET'', ''/users'', []), (''POST'', ''/users'', [])]
   \<and> srv_errors (projr (fst (NewFxHttpServer numeral_of distinct_http_param))) = []
   \<and> srv_errors (projr (fst (NewFxHttpServer numeral_of duplicate_http_param))) =
       [(''cannot resolve router handlers: %v'', DuplicateRegistration)]"
proof -
  let ?chain = "[RecoveryInterceptor True,
           OtelInterceptor (filters_None [FullMethodName ''/test.Service/Bidi'']),
           LoggerInterceptor [''x-foo'' \<mapsto> ''foo'', ''x-bar'' \<mapsto> ''bar''] [''/test.Service/Unary''],
           MetricsInterceptor ''app_grpcserver'' [''0.1'', ''1'', ''10'']] :: string interceptor list"
  let ?created = "\<lparr>grpc_unary = ?chain, grpc_stream = ?chain, grpc_reflection = True,
                   grpc_services = []\<rparr>"
  let ?server = "\<lparr>grpc_unary = ?chain, grpc_stream = ?chain, grpc_reflection = True,
                  grpc_services = [''grpc.health.v1.Health'']\<rparr>"
  let ?http = "\<lparr>srv_debug = False, srv_errorHandler = (True, False), srv_renderer = None,
                srv_premiddleware = [], srv_middleware = [RecoverMiddleware], srv_routes = [],
                srv_errors = []\<rparr> :: string http_server"
  have c1: "createInterceptors numeral_of [''0.005''] (grpc_Config duplicate_grpc_param)
              (grpc_MetricsRegistry duplicate_grpc_param) = Inr (?chain, ?chain, [''app_grpcserver''])"
    using readme_grpc_chain by (simp add: duplicate_grpc_param_def)
  have c2: "createInterceptors numeral_of [''0.005''] (grpc_Config distinct_grpc_param)
              (grpc_MetricsRegistry distinct_grpc_param) = Inr (?chain, ?chain, [''app_grpcserver''])"
    using readme_grpc_chain by (simp add: distinct_grpc_param_def)
  have f1: "grpc_Factory duplicate_grpc_param
           \<lparr>grpc_unary = ?chain, grpc_stream = ?chain,
            grpc_reflection = grpc_reflection_enabled (grpc_Config duplicate_grpc_param),
            grpc_services = []\<rparr> = Inr ?created"
    by (simp add: duplicate_grpc_param_def readme_grpc_config_def)
  have f2: "grpc_Factory distinct_grpc_param
           \<lparr>grpc_unary = ?chain, grpc_stream = ?chain,
            grpc_reflection = grpc_reflection_enabled (grpc_Config distinct_grpc_param),
            grpc_services = []\<rparr> = Inr ?created"
    by (simp add: distinct_grpc_param_def readme_grpc_config_def)
  have h1: "(if grpc_healthcheck_enabled (grpc_Config duplicate_grpc_param)
          then RegisterService ?created GrpcHealthCheckService else Inr ?created) = Inr ?server"
    by (simp add: duplicate_grpc_param_def readme_grpc_config_def RegisterService_def
        GrpcHealthCheckService_def Health_ServiceDesc_def)
  have h2: "(if grpc_healthcheck_enabled (grpc_Config distinct_grpc_param)
          then RegisterService ?created GrpcHealthCheckService else Inr ?created) = Inr ?server"
    by (simp add: distinct_grpc_param_def readme_grpc_config_def RegisterService_def
        GrpcHealthCheckService_def Health_ServiceDesc_def)
  have g1: "http_Factory duplicate_http_param
             \<lparr>opt_debug = AppDebug (http_Config duplicate_http_param), opt_banner = False,
              opt_recovery = True,
              opt_renderer =
                (if http_templates_enabled (http_Config duplicate_http_param)
                 then Some (http_templates_path (http_Config duplicate_http_param)) else None),
              opt_errorHandler =
                (http_errors_obfuscate (http_Config duplicate_http_param) \<or>
                 \<not> AppDebug (http_Config duplicate_http_param),
                 http_errors_stack (http_Config duplicate_http_param) \<or>
                 AppDebug (http_Config duplicate_http_param))\<rparr> = Inr ?http"
    by (simp add: duplicate_http_param_def sample_http_config_def DefaultHttpServerFactory_def)
  have g2: "http_Factory distinct_http_param
             \<lparr>opt_debug = AppDebug (http_Config distinct_http_param), opt_banner = False,
              opt_recovery = True,
              opt_renderer =
                (if http_templates_enabled (http_Config distinct_http_param)
                 then Some (http_templates_path (http_Config distinct_http_param)) else None),
              opt_errorHandler =
                (http_errors_obfuscate (http_Config distinct_http_param) \<or>
                 \<not> AppDebug (http_Config distinct_http_param),
                 http_errors_stack (http_Config distinct_http_param) \<or>
                 AppDebug (http_Config distinct_http_param))\<rparr> = Inr ?http"
    by (simp add: distinct_http_param_def sample_http_config_def DefaultHttpServerFactory_def)
  note a = duplicate_registration [OF c1 f1 h1 g1]
  note b = duplicate_registration [OF c2 f2 h2 g2]
  have a1: "NewFxGrpcServer numeral_of [''0.005''] duplicate_grpc_param =
              (Inl (Returned DuplicateRegistration), [], [''app_grpcserver''])"
    using a [THEN conjunct1] by (simp add: duplicate_grpc_param_def)
  have b1: "NewFxGrpcServer numeral_of [''0.005''] distinct_grpc_param =
              (Inr (?server\<lparr>grpc_services := [''grpc.health.v1.Health'', ''test.Service'', ''test.Other'']\<rparr>),
               [''grpcserver''], [''app_grpcserver''])"
    using b [THEN conjunct2, THEN conjunct1] by (simp add: distinct_grpc_param_def)
  have z: "srv_routes (projr (fst (NewFxHttpServer numeral_of
               (p\<lparr>http_Registry := (http_Registry p)\<lparr>registeredHandlers := []\<rparr>\<rparr>)))) = []
         \<and> srv_errors (projr (fst (NewFxHttpServer numeral_of
               (p\<lparr>http_Registry := (http_Registry p)\<lparr>registeredHandlers := []\<rparr>\<rparr>)))) = []"
    if "p = duplicate_http_param \<or> p = distinct_http_param" for p
    using that
    by (auto simp: NewFxHttpServer_def duplicate_http_param_def distinct_http_param_def
        sample_http_config_def DefaultHttpServerFactory_def withDefaultMiddlewares_def
        withRegisteredResources_def ResolveHandlers_def Resolve_def Use_def Pre_def
        addMiddleware_def Let_def)
  from a [THEN conjunct2, THEN conjunct2, THEN conjunct2, THEN conjunct2] z [of duplicate_http_param]
  have a2: "srv_errors (projr (fst (NewFxHttpServer numeral_of duplicate_http_param))) =
       [(''cannot resolve router handlers: %v'', DuplicateRegistration)]"
    by (auto simp: duplicate_http_param_def ResolveHandlers_def Resolve_def)
  from b [THEN conjunct2, THEN conjunct2, THEN conjunct2, THEN conjunct2] z [of distinct_http_param]
  have b2: "srv_routes (projr (fst (NewFxHttpServer numeral_of distinct_http_param))) =
       [(''GET'', ''/users'', []), (''POST'', ''/users'', [])]
     \<and> srv_errors (projr (fst (NewFxHttpServer numeral_of distinct_http_param))) = []"
    by (auto simp: distinct_http_param_def ResolveHandlers_def Resolve_def ToUpper_methods)
  from a1 b1 a2 b2 show ?thesis by simp
qed

text \<open>
  C4 as it is written fails on the HTTP module: with the same handler registered twice,
  \<^verbatim>\<open>NewFxHttpServer\<close> returns a server and no error, appends its hook, and the start
  hook brings the server to serving; the error is only in the server's log.
\<close>

theorem duplicate_handlers_still_serve:
  "\<not> distinct (map (\<lambda>h. (Method h, Path h)) (registeredHandlers (http_Registry duplicate_http_param)))
   \<and> snd (ResolveHandlers (http_Registry duplicate_http_param)) = Some DuplicateRegistration
   \<and> \<not> isl (fst (NewFxHttpServer numeral_of duplicate_http_param))
   \<and> snd (NewFxHttpServer numeral_of duplicate_http_param) = [''httpserver'']
   \<and> srv_errors (projr (fst (NewFxHttpServer numeral_of duplicate_http_param))) =
       [(''cannot resolve router handlers: %v'', DuplicateRegistration)]
   \<and> state_after (fst (http_OnStart world_up (http_Config duplicate_http_param))) = Serving"
  by (simp add: NewFxHttpServer_def duplicate_http_param_def sample_http_config_def
      DefaultHttpServerFactory_def withDefaultMiddlewares_def withRegisteredResources_def
      ResolveHandlers_def Resolve_def Use_def Errorf_def http_ModuleName_def
      http_OnStart_def echo_Start_def world_up_def state_after_def Let_def)

end
